theory Spec2Isabelle
  imports Main "HOL-Library.Word"
begin

section \<open>Android signing credentials (xdl/src/credentials/AndroidCredentials.js) and the
  web-preview opener (xdl/src/Web.js)\<close>

text \<open>
  A shallow embedding of the two modules. JavaScript strings are modelled as \<open>string\<close>
  (a list of 8-bit characters, read as the UTF-8 bytes of the text), a Node \<open>Buffer\<close> as a
  list of bytes. Everything the code does besides returning a value (calls of the \<open>log\<close>
  sink, file-system writes, child processes, data written to a pseudo-terminal) is made
  explicit: the functions return the calls they made together with their result, and
  every awaited promise that can reject and every call that can throw has its outcome given
  by the environment.
\<close>

subsection \<open>Bytes, strings and digests\<close>

type_synonym byte = "8 word"
type_synonym buffer = "byte list"

text \<open>\<open>Buffer.from(s)\<close> with the default encoding (UTF-8) and \<open>buf.toString()\<close>: the
  string type already holds the UTF-8 bytes.\<close>

definition bufferFromString :: "string \<Rightarrow> buffer" where
  "bufferFromString s = map of_char s"

text \<open>\<open>hash.digest('hex')\<close>: two lower-case hexadecimal digits for each byte, the high
  nibble first.\<close>

definition hexDigit :: "nat \<Rightarrow> char" where
  "hexDigit n = ''0123456789abcdef'' ! (n mod 16)"

definition hexOfByte :: "byte \<Rightarrow> string" where
  "hexOfByte b = [hexDigit (unat b div 16), hexDigit (unat b mod 16)]"

definition digestHex :: "buffer \<Rightarrow> string" where
  "digestHex bs = concat (map hexOfByte bs)"

text \<open>\<open>String.prototype.toUpperCase\<close> on ASCII text (the only text it is applied to here is
  a hexadecimal digest): the letters a to z move to A to Z, every other character stays.\<close>

definition upperChar :: "char \<Rightarrow> char" where
  "upperChar c =
     (if (97::nat) \<le> of_char c \<and> of_char c \<le> (122::nat)
      then char_of (of_char c - (32::nat)) else c)"

definition toUpperCase :: "string \<Rightarrow> string" where
  "toUpperCase s = map upperChar s"

text \<open>The regular expression \<open>.\<close> matches every character but a line terminator.\<close>

definition lineTerminator :: "char \<Rightarrow> bool" where
  "lineTerminator c = (c = CHR 0x0A \<or> c = CHR 0x0D)"

text \<open>
  \<open>s.replace(/(.{2}(?!$))/g, '$1:')\<close>. The global replace scans from the left. At a
  position where two characters that are not line terminators follow and the end of the
  text is not right behind them, the two characters are copied with a colon after them and
  the scan goes on behind the match; at every other position one character is copied and
  the scan moves one position on.
\<close>

fun insertColons :: "string \<Rightarrow> string" where
  "insertColons (a # b # c # rest) =
     (if \<not> lineTerminator a \<and> \<not> lineTerminator b
      then a # b # CHR '':'' # insertColons (c # rest)
      else a # insertColons (b # c # rest))"
| "insertColons s = s"

text \<open>The digests of Node's \<open>crypto\<close> module are parameters of the model
  (\<open>sha1\<close>, \<open>sha256\<close>: the bytes of \<open>createHash(..).update(data).digest()\<close>).\<close>

definition googleHash :: "(buffer \<Rightarrow> buffer) \<Rightarrow> buffer \<Rightarrow> string" where
  "googleHash sha1 data = toUpperCase (digestHex (sha1 data))"

definition googleFingerprint :: "(buffer \<Rightarrow> buffer) \<Rightarrow> buffer \<Rightarrow> string" where
  "googleFingerprint sha1 data = insertColons (googleHash sha1 data)"

definition googleHash256 :: "(buffer \<Rightarrow> buffer) \<Rightarrow> buffer \<Rightarrow> string" where
  "googleHash256 sha256 data = toUpperCase (digestHex (sha256 data))"

text \<open>What the claims about the fingerprint speak of: the text cut into pairs from the
  start, and the pairs joined by a separator.\<close>

fun pairsFromStart :: "string \<Rightarrow> string list" where
  "pairsFromStart (a # b # c # rest) = [a, b] # pairsFromStart (c # rest)"
| "pairsFromStart [] = []"
| "pairsFromStart s = [s]"

fun joinWith :: "char \<Rightarrow> string list \<Rightarrow> string" where
  "joinWith sep [] = []"
| "joinWith sep [g] = g"
| "joinWith sep (g # h # gs) = g @ sep # joinWith sep (h # gs)"

definition upperHexChar :: "char \<Rightarrow> bool" where
  "upperHexChar c = (c \<in> set ''0123456789ABCDEF'')"

subsection \<open>Base64\<close>

text \<open>
  Modelled from the spec: Node's base64 codec (\<open>buf.toString('base64')\<close> and
  \<open>Buffer.from(text, 'base64')\<close>) is not part of the repository; the spec only says
  that the keystore blob is "base64-encoded at rest" and is decoded "to binary". The
  encoder is the standard one (three bytes to four characters of the alphabet
  \<open>A-Z a-z 0-9 + /\<close>, padded with \<open>=\<close>). The decoder is lenient as Node's is: it
  stops at the first \<open>=\<close>, skips every character outside the alphabet, also accepts the
  URL-safe \<open>-\<close> and \<open>_\<close>, and never fails.
\<close>

definition base64Alphabet :: string where
  "base64Alphabet = ''ABCDEFGHIJKLMNOPQRSTUVWXYZabcdefghijklmnopqrstuvwxyz0123456789+/''"

definition base64Char :: "nat \<Rightarrow> char" where
  "base64Char n = base64Alphabet ! (n mod 64)"

fun base64Encode :: "buffer \<Rightarrow> string" where
  "base64Encode (a # b # c # rest) =
     (let n = unat a * 65536 + unat b * 256 + unat c
      in [base64Char (n div 262144), base64Char (n div 4096), base64Char (n div 64),
          base64Char n]) @ base64Encode rest"
| "base64Encode [a, b] =
     (let n = unat a * 65536 + unat b * 256
      in [base64Char (n div 262144), base64Char (n div 4096), base64Char (n div 64),
          CHR ''=''])"
| "base64Encode [a] =
     (let n = unat a * 65536
      in [base64Char (n div 262144), base64Char (n div 4096), CHR ''='', CHR ''=''])"
| "base64Encode [] = []"

definition base64Value :: "char \<Rightarrow> nat option" where
  "base64Value c =
     (let k = (of_char c :: nat)
      in if 65 \<le> k \<and> k \<le> 90 then Some (k - 65)
         else if 97 \<le> k \<and> k \<le> 122 then Some (k - 71)
         else if 48 \<le> k \<and> k \<le> 57 then Some (k + 4)
         else if c = CHR ''+'' \<or> c = CHR ''-'' then Some 62
         else if c = CHR ''/'' \<or> c = CHR ''_'' then Some 63
         else None)"

fun sextetsToBytes :: "nat list \<Rightarrow> buffer" where
  "sextetsToBytes (p # q # r # s # rest) =
     (let n = p * 262144 + q * 4096 + r * 64 + s
      in [of_nat (n div 65536), of_nat (n div 256), of_nat n]) @ sextetsToBytes rest"
| "sextetsToBytes [p, q, r] =
     (let n = p * 262144 + q * 4096 + r * 64
      in [of_nat (n div 65536), of_nat (n div 256)])"
| "sextetsToBytes [p, q] = [of_nat ((p * 262144 + q * 4096) div 65536)]"
| "sextetsToBytes other = []"

definition base64Decode :: "string \<Rightarrow> buffer" where
  "base64Decode s =
     sextetsToBytes (List.map_filter base64Value (takeWhile (\<lambda>c. c \<noteq> CHR ''='') s))"

subsection \<open>Errors, log calls and the file system\<close>

text \<open>
  An error object as the code reads it: \<open>err.code\<close>, \<open>err.stdout\<close>, \<open>err.stderr\<close>
  (each possibly undefined), \<open>e.message\<close>, and the name that \<open>String(err)\<close> prints.
\<close>

record jsError =
  name :: string
  message :: string
  code :: "string option"
  stdout :: "string option"
  stderr :: "string option"

text \<open>
  What a function of the module throws (the rejection of the promise an \<open>async\<close>
  function returns): an error object that a collaborator threw and the code lets through
  or rethrows, an error the code makes itself with \<open>new Error(message)\<close>, or the
  \<open>TypeError\<close> of the runtime for a call of something that is not a function.
\<close>

datatype thrown =
    Propagated jsError
  | NewError string
  | TypeError string

text \<open>
  The \<open>log\<close> parameter is called as \<open>log(..)\<close>, \<open>log.warn(..)\<close> and \<open>log.error(..)\<close>;
  the calls are recorded in order, with their arguments.
\<close>

datatype logArg = Str string | Obj jsError

datatype logCall = Log "logArg list" | LogWarn "logArg list" | LogError "logArg list"

text \<open>
  The value of the \<open>log\<close> parameter, as far as the code uses it: a function that may carry
  the methods \<open>warn\<close> and \<open>error\<close>. When the caller passes nothing, the default is
  \<open>logger.info.bind(logger)\<close>, a bound function: it has neither property.
\<close>

record logSink =
  hasWarn :: bool
  hasError :: bool

definition defaultLog :: logSink where
  "defaultLog = \<lparr>hasWarn = False, hasError = False\<rparr>"

definition logParameter :: "logSink option \<Rightarrow> logSink" where
  "logParameter given = (case given of None \<Rightarrow> defaultLog | Some l \<Rightarrow> l)"

text \<open>
  The file system: the content of every path that holds a file, and the errors that the
  operating system answers a write, a read or an unlink of a path with (permissions, a
  locked file, a missing directory). A read or an unlink of a path that holds no file
  fails with \<open>ENOENT\<close>.
\<close>

record fileSystem =
  files :: "string \<Rightarrow> buffer option"
  writeFault :: "string \<Rightarrow> jsError option"
  readFault :: "string \<Rightarrow> jsError option"
  unlinkFault :: "string \<Rightarrow> jsError option"

text \<open>A file system with no file, on which no operation is refused.\<close>

definition emptyFileSystem :: fileSystem where
  "emptyFileSystem =
     \<lparr>files = (\<lambda>path. None), writeFault = (\<lambda>path. None), readFault = (\<lambda>path. None),
      unlinkFault = (\<lambda>path. None)\<rparr>"

definition enoent :: "string \<Rightarrow> string \<Rightarrow> jsError" where
  "enoent syscall path =
     \<lparr>name = ''Error'',
      message = ''ENOENT: no such file or directory, '' @ syscall @ '' '' @ path,
      code = Some ''ENOENT'', stdout = None, stderr = None\<rparr>"

definition writeFileSync :: "fileSystem \<Rightarrow> string \<Rightarrow> buffer \<Rightarrow> jsError + fileSystem" where
  "writeFileSync fs path buf =
     (case writeFault fs path of
        Some err \<Rightarrow> Inl err
      | None \<Rightarrow> Inr (fs\<lparr>files := (files fs)(path := Some buf)\<rparr>))"

definition readFileSync :: "fileSystem \<Rightarrow> string \<Rightarrow> jsError + buffer" where
  "readFileSync fs path =
     (case readFault fs path of
        Some err \<Rightarrow> Inl err
      | None \<Rightarrow> (case files fs path of None \<Rightarrow> Inl (enoent ''open'' path) | Some buf \<Rightarrow> Inr buf))"

definition unlinkSync :: "fileSystem \<Rightarrow> string \<Rightarrow> jsError + fileSystem" where
  "unlinkSync fs path =
     (case unlinkFault fs path of
        Some err \<Rightarrow> Inl err
      | None \<Rightarrow>
          (case files fs path of
             None \<Rightarrow> Inl (enoent ''unlink'' path)
           | Some buf \<Rightarrow> Inr (fs\<lparr>files := (files fs)(path := None)\<rparr>)))"

subsection \<open>Values of the credentials module\<close>

text \<open>\<open>NEWLINE\<close> and \<open>javaExecutable\<close>, from \<open>process.platform\<close>.\<close>

definition NEWLINE :: "string \<Rightarrow> string" where
  "NEWLINE processPlatform =
     (if processPlatform = ''win32'' then [CHR 0x0D, CHR 0x0A] else [CHR 0x0A])"

definition javaExecutable :: "string \<Rightarrow> string" where
  "javaExecutable processPlatform =
     (if processPlatform = ''win32'' then ''java.exe'' else ''java'')"

text \<open>The credential record of the credential service (the type \<open>Credentials\<close>). Two
  of its field names come back in the next record; where both could be meant, the fields of
  this one are written with the record's name in front.\<close>

record credentials =
  keystore :: string
  keystorePassword :: string
  keyPassword :: string
  keystoreAlias :: string

record identity =
  username :: string
  experienceName :: string

record credentialMetadata = identity +
  platform :: string

record backupArgs = identity +
  outputPath :: string

text \<open>The object \<open>{ keystorePassword, keyAlias, keyPassword }\<close>, and the same with
  \<open>keystorePath\<close>.\<close>

record keystoreData =
  keystorePassword :: string
  keyAlias :: string
  keyPassword :: string

record keystoreParams = keystoreData +
  keystorePath :: string

text \<open>A run of a function: the calls of \<open>log\<close> it made, the file system it leaves and
  what it returned or threw.\<close>

record 'a run =
  logged :: "logCall list"
  filesAfter :: fileSystem
  result :: "thrown + 'a"

text \<open>\<open>spawnAsync(command, args)\<close>: a child process run to its end. It rejects with an
  error (the executable is missing, the exit code is not 0) or resolves, and it may have
  changed files.\<close>

type_synonym spawner =
  "string \<Rightarrow> string list \<Rightarrow> fileSystem \<Rightarrow> jsError option \<times> fileSystem"

subsection \<open>backupExistingCredentials\<close>

text \<open>
  \<open>getCredentialsForPlatform\<close> is the credential service: it rejects, or resolves with a
  record or with nothing. \<open>bold\<close> is \<open>chalk.bold\<close>. The last argument is
  \<open>logSecrets\<close>: \<open>None\<close> when the caller passes no third argument, and then the
  default \<open>true\<close> applies.
\<close>

definition backupExistingCredentials ::
  "(credentialMetadata \<Rightarrow> jsError + credentials option) \<Rightarrow> (string \<Rightarrow> string) \<Rightarrow>
   fileSystem \<Rightarrow> backupArgs \<Rightarrow> bool option \<Rightarrow> keystoreData run" where
  "backupExistingCredentials getCredentialsForPlatform bold fs args logSecretsGiven =
     (let logSecrets = (case logSecretsGiven of None \<Rightarrow> True | Some flag \<Rightarrow> flag);
          credentialMetadata =
            \<lparr>username = username args, experienceName = experienceName args,
             platform = ''android''\<rparr>;
          retrieving = [Log [Str (''Retreiving Android keystore for '' @ experienceName args)]]
      in case getCredentialsForPlatform credentialMetadata of
           Inl err \<Rightarrow> \<lparr>logged = retrieving, filesAfter = fs, result = Inl (Propagated err)\<rparr>
         | Inr None \<Rightarrow>
             \<lparr>logged = retrieving, filesAfter = fs,
              result = Inl (NewError
                ''Unable to fetch credentials for this project. Are you sure they exist?'')\<rparr>
         | Inr (Some credentials) \<Rightarrow>
             (let keystore = credentials.keystore credentials;
                  keystorePassword = credentials.keystorePassword credentials;
                  keyAlias = credentials.keystoreAlias credentials;
                  keyPassword = credentials.keyPassword credentials;
                  storeBuf = base64Decode keystore;
                  writing =
                    retrieving @ [Log [Str (''Writing keystore to '' @ outputPath args @ ''...'')]]
              in case writeFileSync fs (outputPath args) storeBuf of
                   Inl err \<Rightarrow>
                     \<lparr>logged = writing, filesAfter = fs, result = Inl (Propagated err)\<rparr>
                 | Inr fs' \<Rightarrow>
                     \<lparr>logged = writing @
                        (if logSecrets
                         then [Log [Str ''Done writing keystore to disk.''],
                               Log [Str (''Save these important values as well:\<newline>\<newline>''
                                 @ ''  Keystore password: '' @ bold keystorePassword @ ''\<newline>''
                                 @ ''  Key alias:         '' @ bold keyAlias @ ''\<newline>''
                                 @ ''  Key password:      '' @ bold keyPassword @ ''\<newline>''
                                 @ ''  '')],
                               Log [Str ''Keystore saved!'']]
                         else []),
                      filesAfter = fs',
                      result = Inr \<lparr>keystorePassword = keystorePassword, keyAlias = keyAlias,
                                    keyPassword = keyPassword\<rparr>\<rparr>))"

subsection \<open>logKeystoreCredentials\<close>


subsection \<open>exportCert and logKeystoreHashes\<close>

text \<open>The parameters \<open>keystorePath\<close>, \<open>keystorePassword\<close> and \<open>keyAlias\<close> of
  \<open>exportCert\<close> are called \<open>storePath\<close>, \<open>storePassword\<close> and \<open>alias\<close> here, the first
  names being those of the record fields.\<close>

definition exportCert ::
  "spawner \<Rightarrow> fileSystem \<Rightarrow> string \<Rightarrow> string \<Rightarrow> string \<Rightarrow> string \<Rightarrow> jsError option \<times> fileSystem" where
  "exportCert spawnAsync fs storePath storePassword alias certFile =
     spawnAsync ''keytool''
       [''-exportcert'', ''-keystore'', storePath, ''-storepass'', storePassword,
        ''-alias'', alias, ''-file'', certFile, ''-noprompt'', ''-storetype'', ''JKS'']
       fs"

text \<open>The \<open>try\<close> block: the files it leaves, the calls of \<open>log\<close>, and the error it
  throws, if any. \<open>sha1\<close> and \<open>sha256\<close> are the digests of Node's \<open>crypto\<close>.\<close>

definition hashesTry ::
  "spawner \<Rightarrow> (buffer \<Rightarrow> buffer) \<Rightarrow> (buffer \<Rightarrow> buffer) \<Rightarrow> fileSystem \<Rightarrow> keystoreParams \<Rightarrow>
   string \<Rightarrow> fileSystem \<times> logCall list \<times> jsError option" where
  "hashesTry spawnAsync sha1 sha256 fs params certFile =
     (case exportCert spawnAsync fs (keystorePath params) (keystorePassword params)
             (keyAlias params) certFile of
        (Some err, fs1) \<Rightarrow> (fs1, [], Some err)
      | (None, fs1) \<Rightarrow>
          (case readFileSync fs1 certFile of
             Inl err \<Rightarrow> (fs1, [], Some err)
           | Inr data \<Rightarrow>
               (let fbHash = base64Encode (sha1 data)
                in (fs1,
                    [Log [Str (''Google Certificate Fingerprint:     ''
                       @ googleFingerprint sha1 data)],
                     Log [Str (''Google Certificate Hash (SHA-1):    '' @ googleHash sha1 data)],
                     Log [Str (''Google Certificate Hash (SHA-256):  ''
                       @ googleHash256 sha256 data)],
                     Log [Str (''Facebook Key Hash:                  '' @ fbHash)]],
                    None))))"

text \<open>The \<open>catch\<close> block: its calls of \<open>log\<close> and what it throws. A call of
  \<open>log.warn\<close> or \<open>log.error\<close> on a \<open>log\<close> without that method is a \<open>TypeError\<close>, which
  ends the block.\<close>

definition hashesCatch :: "logSink \<Rightarrow> jsError \<Rightarrow> logCall list \<times> thrown" where
  "hashesCatch log err =
     (if code err = Some ''ENOENT'' \<and> \<not> hasWarn log
      then ([], TypeError ''log.warn is not a function'')
      else
        (let hints =
               (if code err = Some ''ENOENT''
                then [LogWarn [Str ''Are you sure you have keytool installed?''],
                      Log [Str ''keytool is part of openJDK: http://openjdk.java.net/''],
                      Log [Str ''Also make sure that keytool is in your PATH after installation.'']]
                else []);
             out =
               (case stdout err of
                  Some text \<Rightarrow> if text \<noteq> [] then [Log [Str text]] else []
                | None \<Rightarrow> [])
         in case stderr err of
              Some text \<Rightarrow>
                if text \<noteq> []
                then (if hasError log
                      then (hints @ out @ [LogError [Str text]], Propagated err)
                      else (hints @ out, TypeError ''log.error is not a function''))
                else (hints @ out, Propagated err)
            | None \<Rightarrow> (hints @ out, Propagated err)))"

text \<open>The \<open>finally\<close> block: the files it leaves, its calls of \<open>log\<close>, and what it
  throws, if anything.\<close>

definition hashesFinally ::
  "logSink \<Rightarrow> fileSystem \<Rightarrow> string \<Rightarrow> fileSystem \<times> logCall list \<times> thrown option" where
  "hashesFinally log fs certFile =
     (case unlinkSync fs certFile of
        Inr fs' \<Rightarrow> (fs', [], None)
      | Inl err \<Rightarrow>
          if code err \<noteq> Some ''ENOENT''
          then (if hasError log
                then (fs, [LogError [Obj err]], None)
                else (fs, [], Some (TypeError ''log.error is not a function'')))
          else (fs, [], None))"

text \<open>The whole function. What the \<open>finally\<close> block throws replaces the outcome of the
  \<open>try\<close> and \<open>catch\<close> blocks; when it throws nothing, that outcome stands.\<close>

definition logKeystoreHashes ::
  "spawner \<Rightarrow> (buffer \<Rightarrow> buffer) \<Rightarrow> (buffer \<Rightarrow> buffer) \<Rightarrow> fileSystem \<Rightarrow> keystoreParams \<Rightarrow>
   logSink option \<Rightarrow> unit run" where
  "logKeystoreHashes spawnAsync sha1 sha256 fs params logGiven =
     (let log = logParameter logGiven;
          certFile = keystorePath params @ ''.cer''
      in case hashesTry spawnAsync sha1 sha256 fs params certFile of
           (fs1, tryLog, tryError) \<Rightarrow>
             (case (case tryError of
                      None \<Rightarrow> ([], Inr ())
                    | Some err \<Rightarrow>
                        (case hashesCatch log err of (catchLog, t) \<Rightarrow> (catchLog, Inl t))) of
                (catchLog, outcome) \<Rightarrow>
                  (case hashesFinally log fs1 certFile of
                     (fs2, finallyLog, finallyError) \<Rightarrow>
                       \<lparr>logged = tryLog @ catchLog @ finallyLog,
                        filesAfter = fs2,
                        result = (case finallyError of
                                    Some t \<Rightarrow> Inl t
                                  | None \<Rightarrow> outcome)\<rparr>)))"

subsection \<open>exportPrivateKey\<close>

text \<open>
  The child on the pseudo-terminal emits events, in order: \<open>error\<close> with an error object,
  \<open>exit\<close> with the exit code. The promise around it is rejected with an error object
  or with an exit code.
\<close>

datatype ptyEvent = PtyError jsError | PtyExit int

datatype rejection = RejectedWith jsError | RejectedWithCode int

text \<open>
  The environment of \<open>exportPrivateKey\<close>: \<open>process.platform\<close>; the value of
  \<open>path.join(UserSettings.dotExpoHomeDirectory(), 'android_tools_pepk.jar')\<close>; whether
  \<open>fs.existsSync\<close> finds the tool there; the error that the download of the tool fails
  with, if it fails; and \<open>ptySpawn\<close>, which throws or starts a child that will emit the
  given events.
\<close>

record exportEnv =
  processPlatform :: string
  encryptToolPath :: string
  toolExists :: bool
  download :: "jsError option"
  ptySpawn :: "string \<Rightarrow> string list \<Rightarrow> jsError + ptyEvent list"

text \<open>
  A run of \<open>exportPrivateKey\<close>: its calls of \<open>log\<close>; the command line of the child, when
  one was started; what was written to the child, one entry for each \<open>child.write\<close>; and
  the outcome, \<open>None\<close> when the promise of the function is never settled (a child that
  emits neither \<open>error\<close> nor \<open>exit\<close>).
\<close>

record exportRun =
  exportLogged :: "logCall list"
  spawned :: "(string \<times> string list) option"
  written :: "string list"
  exportResult :: "(thrown + unit) option"

text \<open>\<open>String(error)\<close> in the template of the error message: \<open>Error.prototype.toString\<close>
  for an error object, the decimal digits for an exit code.\<close>

definition errorToString :: "jsError \<Rightarrow> string" where
  "errorToString e =
     (if name e = [] then message e
      else if message e = [] then name e
      else name e @ '': '' @ message e)"

fun natToString :: "nat \<Rightarrow> string" where
  "natToString n =
     (if n < 10 then [''0123456789'' ! n]
      else natToString (n div 10) @ [''0123456789'' ! (n mod 10)])"

declare natToString.simps [simp del]

definition intToString :: "int \<Rightarrow> string" where
  "intToString i = (if i < 0 then CHR ''-'' # natToString (nat (- i)) else natToString (nat i))"

text \<open>Reading a decimal text back: the number that a text of digits stands for, with a
  minus sign in front or without.\<close>

definition digitsValue :: "string \<Rightarrow> nat" where
  "digitsValue s = foldl (\<lambda>value c. value * 10 + (of_char c - 48)) 0 s"

definition decimalValue :: "string \<Rightarrow> int" where
  "decimalValue s =
     (case s of
        [] \<Rightarrow> 0
      | c # digits \<Rightarrow>
          if c = CHR ''-'' then - int (digitsValue digits) else int (digitsValue s))"

definition rejectionToString :: "rejection \<Rightarrow> string" where
  "rejectionToString r =
     (case r of RejectedWith err \<Rightarrow> errorToString err | RejectedWithCode c \<Rightarrow> intToString c)"

text \<open>
  The promise around the child (the executor and the two handlers). An exception of
  \<open>ptySpawn\<close> inside the executor rejects the promise. Otherwise both lines are written
  at once, before any event is delivered, and the first event settles the promise: what
  the handlers do at later events changes nothing, and happens after the function is over.
  The result is the calls of \<open>log\<close>, the command line, the writes, and how the promise is
  settled. The parameter \<open>outputPath\<close> of the source is called \<open>outputFile\<close> here and in
  \<open>exportPrivateKey\<close> (the first name is a record field).
\<close>

definition ptySession ::
  "exportEnv \<Rightarrow> keystoreParams \<Rightarrow> string \<Rightarrow> string \<Rightarrow>
   logCall list \<times> (string \<times> string list) option \<times> string list \<times> (rejection + unit) option" where
  "ptySession env params encryptionKey outputFile =
     (let command = javaExecutable (processPlatform env);
          args = [''-jar'', encryptToolPath env, ''--keystore'', keystorePath params,
                  ''--alias'', keyAlias params, ''--output'', outputFile,
                  ''--encryptionkey'', encryptionKey]
      in case ptySpawn env command args of
           Inl err \<Rightarrow> ([], None, [], Some (Inl (RejectedWith err)))
         | Inr events \<Rightarrow>
             (let writes = [keystorePassword params @ NEWLINE (processPlatform env),
                            keyPassword params @ NEWLINE (processPlatform env)]
              in case events of
                   [] \<Rightarrow> ([], Some (command, args), writes, None)
                 | PtyError err # later \<Rightarrow>
                     ([Log [Str ''error'', Obj err]], Some (command, args), writes,
                      Some (Inl (RejectedWith err)))
                 | PtyExit exitCode # later \<Rightarrow>
                     ([], Some (command, args), writes,
                      Some (if exitCode \<noteq> 0 then Inl (RejectedWithCode exitCode) else Inr ()))))"

definition exportPrivateKey ::
  "exportEnv \<Rightarrow> keystoreParams \<Rightarrow> string \<Rightarrow> string \<Rightarrow> exportRun" where
  "exportPrivateKey env params encryptionKey outputFile =
     (let downloading =
            (if \<not> toolExists env
             then [Log [Str (''Downloading PEPK tool from Google Play to '' @ encryptToolPath env)]]
             else [])
      in case (if toolExists env then None else download env) of
           Some err \<Rightarrow>
             \<lparr>exportLogged = downloading, spawned = None, written = [],
              exportResult = Some (Inl (Propagated err))\<rparr>
         | None \<Rightarrow>
           (case ptySession env params encryptionKey outputFile of
              (sessionLog, child, writes, settled) \<Rightarrow>
                \<lparr>exportLogged = downloading @ sessionLog @
                   (if settled = Some (Inr ())
                    then [Log [Str (''Exported and encrypted private app signing key to file ''
                                    @ outputFile)]]
                    else []),
                 spawned = child,
                 written = writes,
                 exportResult =
                   (case settled of
                      None \<Rightarrow> None
                    | Some (Inr u) \<Rightarrow> Some (Inr ())
                    | Some (Inl error) \<Rightarrow>
                        Some (Inl (NewError (''PEPK tool failed with return code ''
                                             @ rejectionToString error))))\<rparr>))"

subsection \<open>createKeystore and generateUploadKeystore\<close>

definition createKeystore ::
  "spawner \<Rightarrow> fileSystem \<Rightarrow> keystoreParams \<Rightarrow> string \<Rightarrow> jsError option \<times> fileSystem" where
  "createKeystore spawnAsync fs params androidPackage =
     spawnAsync ''keytool''
       [''-genkey'', ''-v'', ''-storepass'', keystorePassword params, ''-keypass'',
        keyPassword params, ''-keystore'', keystorePath params, ''-alias'', keyAlias params,
        ''-keyalg'', ''RSA'', ''-keysize'', ''2048'', ''-validity'', ''10000'', ''-dname'',
        ''CN='' @ androidPackage @ '',OU=,O=,L=,S=,C=US'']
       fs"

text \<open>\<open>text.replace(/-/g, '')\<close>.\<close>

definition removeHyphens :: "string \<Rightarrow> string" where
  "removeHyphens text = filter (\<lambda>c. c \<noteq> CHR ''-'') text"

text \<open>\<open>uuidv4\<close> is the random generator: \<open>uuidv4 k\<close> is what its call number \<open>k\<close>
  returns. The object literal calls it for \<open>keystorePassword\<close> first. The third parameter,
  \<open>experienceName\<close> in the source, is called \<open>appName\<close> here (the first name is a record
  field).\<close>

definition generateUploadKeystore ::
  "(nat \<Rightarrow> string) \<Rightarrow> spawner \<Rightarrow> fileSystem \<Rightarrow> string \<Rightarrow> string \<Rightarrow> string \<Rightarrow>
   keystoreData run" where
  "generateUploadKeystore uuidv4 spawnAsync fs uploadKeystorePath androidPackage appName =
     (let keystoreData =
            \<lparr>keystorePassword = removeHyphens (uuidv4 0),
             keyAlias = base64Encode (bufferFromString appName),
             keyPassword = removeHyphens (uuidv4 1)\<rparr>
      in case createKeystore spawnAsync fs
                \<lparr>keystorePassword = keystorePassword keystoreData,
                 keyAlias = keyAlias keystoreData,
                 keyPassword = keyPassword keystoreData,
                 keystorePath = uploadKeystorePath\<rparr>
                androidPackage of
           (Some err, fs') \<Rightarrow> \<lparr>logged = [], filesAfter = fs', result = Inl (Propagated err)\<rparr>
         | (None, fs') \<Rightarrow> \<lparr>logged = [], filesAfter = fs', result = Inr keystoreData\<rparr>)"

text \<open>The canonical text of a UUID, as \<open>uuidv4\<close> returns it: groups of 8, 4, 4, 4 and 12
  lower-case hexadecimal digits with a hyphen between them, 36 characters in all.\<close>

definition lowerHexChar :: "char \<Rightarrow> bool" where
  "lowerHexChar c = (c \<in> set ''0123456789abcdef'')"

definition uuidText :: "string \<Rightarrow> bool" where
  "uuidText u =
     (let g1 = take 8 u; g2 = take 4 (drop 9 u); g3 = take 4 (drop 14 u);
          g4 = take 4 (drop 19 u); g5 = drop 24 u
      in u = g1 @ ''-'' @ g2 @ ''-'' @ g3 @ ''-'' @ g4 @ ''-'' @ g5 \<and>
         length g1 = 8 \<and> length g2 = 4 \<and> length g3 = 4 \<and> length g4 = 4 \<and> length g5 = 12 \<and>
         list_all lowerHexChar (g1 @ g2 @ g3 @ g4 @ g5))"

subsection \<open>The web-preview opener (Web.js)\<close>

text \<open>What \<open>readConfigJsonAsync\<close> resolves with, as far as the code reads it: \<open>exp\<close>,
  which may be null, and \<open>exp.platforms\<close>, which may be undefined.\<close>

datatype expConfig = ExpNull | Exp "string list option"

text \<open>The calls the opener makes, in order: \<open>console.log\<close>, \<open>Logger.global.error\<close> and
  \<open>opn\<close> (with the URL to open).\<close>

datatype webEffect = ConsoleLog "string list" | GlobalError string | Opn string

text \<open>The objects the opener resolves with: \<open>{ success }\<close>, \<open>{ success, url }\<close> and
  \<open>{ success, error }\<close>.\<close>

record webResult =
  success :: bool
  url :: "string option"
  error :: "jsError option"

text \<open>
  The collaborators: \<open>readConfigJsonAsync\<close> and \<open>UrlUtils.constructWebAppUrlAsync\<close>
  reject with an error object or resolve; \<open>opn(url, { wait: false })\<close> throws an error
  object or returns a promise, which the opener does not await; \<open>webSetupLogs\<close> is the
  fixed text that \<open>getWebSetupLogs\<close> builds, and \<open>boldYellow\<close> is \<open>chalk.bold.yellow\<close>.
  What the collaborators throw is an error object: the \<open>catch\<close> block reads its
  \<open>message\<close>.
\<close>

record webEnv =
  readConfigJsonAsync :: "string \<Rightarrow> jsError + expConfig"
  constructWebAppUrlAsync :: "string \<Rightarrow> jsError + string"
  opn :: "string \<Rightarrow> jsError option"
  webSetupLogs :: string
  boldYellow :: "string \<Rightarrow> string"

record webRun =
  effects :: "webEffect list"
  returned :: "thrown + webResult"

definition logPreviewNotice :: "webEnv \<Rightarrow> webEffect list" where
  "logPreviewNotice env =
     [ConsoleLog [],
      ConsoleLog [boldYellow env
        (''Web support in Expo is experimental and subject to breaking changes. ''
         @ ''Do not use this in production yet.'')],
      ConsoleLog []]"

definition logWebSetup :: "webEnv \<Rightarrow> webEffect list" where
  "logWebSetup env = [GlobalError (webSetupLogs env)]"

definition hasWebSupportAsync :: "webEnv \<Rightarrow> string \<Rightarrow> thrown + bool" where
  "hasWebSupportAsync env projectRoot =
     (case readConfigJsonAsync env projectRoot of
        Inl err \<Rightarrow> Inl (Propagated err)
      | Inr ExpNull \<Rightarrow> Inl (TypeError ''Cannot read property platforms of null'')
      | Inr (Exp None) \<Rightarrow> Inl (TypeError ''Cannot read property includes of undefined'')
      | Inr (Exp (Some platforms)) \<Rightarrow> Inr (''web'' \<in> set platforms))"

definition openProjectAsync :: "webEnv \<Rightarrow> string \<Rightarrow> webRun" where
  "openProjectAsync env projectRoot =
     (case hasWebSupportAsync env projectRoot of
        Inl t \<Rightarrow> \<lparr>effects = [], returned = Inl t\<rparr>
      | Inr hasWebSupport \<Rightarrow>
          if \<not> hasWebSupport
          then \<lparr>effects = logWebSetup env,
                returned = Inr \<lparr>success = False, url = None, error = None\<rparr>\<rparr>
          else
            (case constructWebAppUrlAsync env projectRoot of
               Inl e \<Rightarrow>
                 \<lparr>effects = logPreviewNotice env @
                    [GlobalError (''Couldn'' @ [CHR 0x27] @ ''t start project on web: ''
                                  @ message e)],
                  returned = Inr \<lparr>success = False, url = None, error = Some e\<rparr>\<rparr>
             | Inr address \<Rightarrow>
                 (case opn env address of
                    Some e \<Rightarrow>
                      \<lparr>effects = logPreviewNotice env @
                         [Opn address,
                          GlobalError (''Couldn'' @ [CHR 0x27] @ ''t start project on web: ''
                                       @ message e)],
                       returned = Inr \<lparr>success = False, url = None, error = Some e\<rparr>\<rparr>
                  | None \<Rightarrow>
                      \<lparr>effects = logPreviewNotice env @ [Opn address],
                       returned = Inr \<lparr>success = True, url = Some address,
                                       error = None\<rparr>\<rparr>)))"

subsection \<open>The SHA-1 fingerprint\<close>

lemma length_digestHex: "length (digestHex bs) = 2 * length bs"
  by (induction bs) (simp_all add: digestHex_def hexOfByte_def)

lemma nibble_cases:
  "n < 16 \<Longrightarrow> n \<in> {0, 1, 2, 3, 4, 5, 6, 7, 8, 9, 10, 11, 12, 13, 14, 15::nat}"
  by simp arith

lemma upper_hexDigit: "upperHexChar (upperChar (hexDigit n))"
proof -
  have "n mod 16 < 16" by simp
  then have "n mod 16 \<in> {0, 1, 2, 3, 4, 5, 6, 7, 8, 9, 10, 11, 12, 13, 14, 15::nat}"
    by (rule nibble_cases)
  then show ?thesis
    by (auto simp: hexDigit_def upperChar_def upperHexChar_def char_of_eq_iff)
qed

lemma upper_digestHex: "list_all upperHexChar (toUpperCase (digestHex bs))"
  by (induction bs) (simp_all add: digestHex_def hexOfByte_def toUpperCase_def upper_hexDigit)

lemma insertColons_Nil: "insertColons s = [] \<longleftrightarrow> s = []"
  by (induction s rule: insertColons.induct) auto

lemma pairsFromStart_Nil: "pairsFromStart s = [] \<longleftrightarrow> s = []"
  by (induction s rule: pairsFromStart.induct) auto

lemma insertColons_join:
  "list_all (\<lambda>c. \<not> lineTerminator c) s \<Longrightarrow>
   insertColons s = joinWith CHR '':'' (pairsFromStart s)"
proof (induction s rule: insertColons.induct)
  case (1 a b c rest)
  then show ?case
    by (cases "pairsFromStart (c # rest)") (auto simp: pairsFromStart_Nil)
qed simp_all

lemma upperHex_not_terminator: "upperHexChar c \<Longrightarrow> \<not> lineTerminator c"
  by (auto simp: upperHexChar_def lineTerminator_def)

lemma upperHex_not_colon: "upperHexChar c \<Longrightarrow> c \<noteq> CHR '':''"
  by (auto simp: upperHexChar_def)

lemma length_insertColons:
  "list_all (\<lambda>c. \<not> lineTerminator c) s \<Longrightarrow>
   length (insertColons s) = length s + (length s - 1) div 2"
  by (induction s rule: insertColons.induct) auto

lemma count_insertColons:
  "list_all (\<lambda>c. \<not> lineTerminator c) s \<Longrightarrow>
   count_list (insertColons s) CHR '':'' = count_list s CHR '':'' + (length s - 1) div 2"
  by (induction s rule: insertColons.induct) auto

lemma last_insertColons: "s \<noteq> [] \<Longrightarrow> last (insertColons s) = last s"
  by (induction s rule: insertColons.induct) (auto simp: insertColons_Nil)

lemma length_pairsFromStart: "length (pairsFromStart s) = (length s + 1) div 2"
  by (induction s rule: pairsFromStart.induct) auto

lemma pairs_of_even: "even (length s) \<Longrightarrow> list_all (\<lambda>g. length g = 2) (pairsFromStart s)"
  by (induction s rule: pairsFromStart.induct) auto

lemma concat_pairsFromStart: "concat (pairsFromStart s) = s"
  by (induction s rule: pairsFromStart.induct) auto

lemma count_list_0: "list_all (\<lambda>c. c \<noteq> x) s \<Longrightarrow> count_list s x = 0"
  by (induction s) auto

text \<open>
  C2. When the SHA-1 digest has its 20 bytes, the hash that \<open>logKeystoreHashes\<close> prints
  is 40 characters long, each an upper-case hexadecimal digit; the fingerprint is that text
  cut into pairs from the start (20 pairs of two characters) and joined by colons; it has
  59 characters, exactly 19 of them colons, and does not end with a colon.
\<close>

theorem googleFingerprint_shape:
  assumes "length (sha1 data) = 20"
  shows "length (googleHash sha1 data) = 40 \<and>
         list_all upperHexChar (googleHash sha1 data) \<and>
         googleFingerprint sha1 data =
           joinWith CHR '':'' (pairsFromStart (googleHash sha1 data)) \<and>
         length (pairsFromStart (googleHash sha1 data)) = 20 \<and>
         list_all (\<lambda>g. length g = 2) (pairsFromStart (googleHash sha1 data)) \<and>
         concat (pairsFromStart (googleHash sha1 data)) = googleHash sha1 data \<and>
         length (googleFingerprint sha1 data) = 59 \<and>
         count_list (googleFingerprint sha1 data) CHR '':'' = 19 \<and>
         last (googleFingerprint sha1 data) \<noteq> CHR '':''"
proof -
  let ?h = "googleHash sha1 data"
  have len: "length ?h = 40"
    using assms by (simp add: googleHash_def toUpperCase_def length_digestHex)
  have hex: "list_all upperHexChar ?h"
    by (simp add: googleHash_def upper_digestHex)
  have noterm: "list_all (\<lambda>c. \<not> lineTerminator c) ?h"
    using hex by (auto simp: list_all_iff upperHex_not_terminator)
  have nocolon: "list_all (\<lambda>c. c \<noteq> CHR '':'') ?h"
    using hex by (auto simp: list_all_iff upperHex_not_colon)
  have nonempty: "?h \<noteq> []"
    using len by auto
  have "last ?h \<in> set ?h"
    using nonempty by simp
  then have lastc: "last ?h \<noteq> CHR '':''"
    using nocolon by (auto simp: list_all_iff)
  show ?thesis
    using len hex nonempty lastc
    by (simp add: googleFingerprint_def insertColons_join [OF noterm, symmetric]
        length_pairsFromStart pairs_of_even concat_pairsFromStart
        length_insertColons [OF noterm] count_insertColons [OF noterm]
        count_list_0 [OF nocolon] last_insertColons)
qed

theorem googleFingerprint_shape_witness:
  "length ((\<lambda>d. [0xDA, 0x39, 0xA3, 0xEE, 0x5E, 0x6B, 0x4B, 0x0D, 0x32, 0x55,
                  0xBF, 0xEF, 0x95, 0x60, 0x18, 0x90, 0xAF, 0xD8, 0x07, 0x09 :: byte]) []) = 20 \<and>
   googleHash (\<lambda>d. [0xDA, 0x39, 0xA3, 0xEE, 0x5E, 0x6B, 0x4B, 0x0D, 0x32, 0x55,
                  0xBF, 0xEF, 0x95, 0x60, 0x18, 0x90, 0xAF, 0xD8, 0x07, 0x09]) []
     = ''DA39A3EE5E6B4B0D3255BFEF95601890AFD80709'' \<and>
   googleFingerprint (\<lambda>d. [0xDA, 0x39, 0xA3, 0xEE, 0x5E, 0x6B, 0x4B, 0x0D, 0x32, 0x55,
                  0xBF, 0xEF, 0x95, 0x60, 0x18, 0x90, 0xAF, 0xD8, 0x07, 0x09]) []
     = ''DA:39:A3:EE:5E:6B:4B:0D:32:55:BF:EF:95:60:18:90:AF:D8:07:09'' \<and>
   count_list (googleFingerprint (\<lambda>d. [0xDA, 0x39, 0xA3, 0xEE, 0x5E, 0x6B, 0x4B, 0x0D, 0x32, 0x55,
                  0xBF, 0xEF, 0x95, 0x60, 0x18, 0x90, 0xAF, 0xD8, 0x07, 0x09]) []) CHR '':'' = 19"
proof -
  let ?sha1 = "\<lambda>d::buffer. [0xDA, 0x39, 0xA3, 0xEE, 0x5E, 0x6B, 0x4B, 0x0D, 0x32, 0x55,
                  0xBF, 0xEF, 0x95, 0x60, 0x18, 0x90, 0xAF, 0xD8, 0x07, 0x09 :: byte]"
  have h: "length (?sha1 []) = 20" by simp
  have v: "googleHash ?sha1 [] = ''DA39A3EE5E6B4B0D3255BFEF95601890AFD80709''"
    by code_simp
  have w: "googleFingerprint ?sha1 [] = ''DA:39:A3:EE:5E:6B:4B:0D:32:55:BF:EF:95:60:18:90:AF:D8:07:09''"
    by code_simp
  from googleFingerprint_shape [of ?sha1 "[]"] h
  have "count_list (googleFingerprint ?sha1 []) CHR '':'' = 19"
    by blast
  with h v w show ?thesis by blast
qed

subsection \<open>Base64: decoding undoes encoding\<close>

lemma length_base64Alphabet: "length base64Alphabet = 64"
  by (simp add: base64Alphabet_def)

lemma base64Value_alphabet: "map base64Value base64Alphabet = map Some [0..<64]"
  by (simp add: base64Alphabet_def base64Value_def upt_conv_Cons)

lemma pad_not_in_alphabet: "CHR ''='' \<notin> set base64Alphabet"
  by (simp add: base64Alphabet_def)

lemma base64Value_Char: "base64Value (base64Char n) = Some (n mod 64)"
proof -
  have k: "n mod 64 < length base64Alphabet"
    by (simp add: length_base64Alphabet)
  have "base64Value (base64Alphabet ! (n mod 64)) = map base64Value base64Alphabet ! (n mod 64)"
    using k by simp
  also have "\<dots> = Some (n mod 64)"
    unfolding base64Value_alphabet by simp
  finally show ?thesis
    by (simp add: base64Char_def)
qed

lemma base64Char_not_pad: "base64Char n \<noteq> CHR ''=''"
proof -
  have "n mod 64 < length base64Alphabet"
    by (simp add: length_base64Alphabet)
  then have "base64Alphabet ! (n mod 64) \<in> set base64Alphabet"
    by (rule nth_mem)
  then show ?thesis
    using pad_not_in_alphabet by (auto simp: base64Char_def)
qed

lemma sextets_rebuild:
  fixes n :: nat
  assumes "n < 16777216"
  shows "(n div 262144) mod 64 * 262144 + (n div 4096) mod 64 * 4096
           + (n div 64) mod 64 * 64 + n mod 64 = n"
proof -
  define m1 where "m1 = n div 64"
  define m2 where "m2 = m1 div 64"
  define m3 where "m3 = m2 div 64"
  have d1: "n div 4096 = m2"
    by (simp add: m1_def m2_def div_mult2_eq)
  have d2: "n div 262144 = m3"
    by (simp add: m1_def m2_def m3_def div_mult2_eq)
  have e1: "n = 64 * m1 + n mod 64"
    by (simp add: m1_def)
  have e2: "m1 = 64 * m2 + m1 mod 64"
    by (simp add: m2_def)
  have e3: "m2 = 64 * m3 + m2 mod 64"
    by (simp add: m3_def)
  have "m3 < 64"
    using assms e1 e2 e3 by linarith
  then have "m3 mod 64 = m3"
    by simp
  then show ?thesis
    unfolding d1 d2 m1_def [symmetric] using e1 e2 e3 by linarith
qed

lemma bytes_split:
  fixes x y z :: nat
  assumes "x < 256" "y < 256" "z < 256"
  shows "(x * 65536 + y * 256 + z) div 65536 = x"
    and "(x * 65536 + y * 256 + z) div 256 = x * 256 + y"
    and "x * 65536 + y * 256 + z < 16777216"
proof -
  show "(x * 65536 + y * 256 + z) div 65536 = x"
    using assms by (intro div_nat_eqI) simp_all
  show "(x * 65536 + y * 256 + z) div 256 = x * 256 + y"
    using assms by (intro div_nat_eqI) simp_all
  show "x * 65536 + y * 256 + z < 16777216"
    using assms by linarith
qed

lemma byte_of_nat_low: "(of_nat (x * 256 + y) :: byte) = of_nat y"
  by (subst word_of_nat_eq_iff) (simp add: take_bit_eq_mod)

lemma unat_byte: "unat (a :: byte) < 256"
  using unsigned_less [of a, where ?'a = nat] by simp

text \<open>The four sextets of three bytes give the three bytes back.\<close>

lemma group_of_three:
  fixes a b c :: byte
  defines "n \<equiv> unat a * 65536 + unat b * 256 + unat c"
  shows "sextetsToBytes ((n div 262144) mod 64 # (n div 4096) mod 64 # (n div 64) mod 64
           # n mod 64 # others) = a # b # c # sextetsToBytes others"
proof -
  let ?n' = "(n div 262144) mod 64 * 262144 + (n div 4096) mod 64 * 4096
               + (n div 64) mod 64 * 64 + n mod 64"
  have bound: "n < 16777216"
    unfolding n_def by (rule bytes_split(3)) (rule unat_byte)+
  have n': "?n' = n"
    by (rule sextets_rebuild [OF bound])
  have hi: "n div 65536 = unat a"
    unfolding n_def by (rule bytes_split(1)) (rule unat_byte)+
  have mid: "n div 256 = unat a * 256 + unat b"
    unfolding n_def by (rule bytes_split(2)) (rule unat_byte)+
  have b1: "(of_nat (unat a) :: byte) = a"
    by simp
  have b2: "(of_nat (unat a * 256 + unat b) :: byte) = b"
    by (subst byte_of_nat_low) simp
  have "n = (unat a * 256 + unat b) * 256 + unat c"
    by (simp add: n_def)
  then have "(of_nat n :: byte) = of_nat (unat c)"
    by (simp only: byte_of_nat_low)
  then have lo: "(of_nat n :: byte) = c"
    by simp
  have "sextetsToBytes ((n div 262144) mod 64 # (n div 4096) mod 64 # (n div 64) mod 64
           # n mod 64 # others)
        = [of_nat (?n' div 65536), of_nat (?n' div 256), of_nat ?n'] @ sextetsToBytes others"
    by (simp add: Let_def)
  also have "\<dots> = a # b # c # sextetsToBytes others"
    unfolding n' hi mid b1 b2 lo by simp
  finally show ?thesis .
qed

lemma group_of_two:
  fixes a b :: byte
  defines "n \<equiv> unat a * 65536 + unat b * 256"
  shows "sextetsToBytes [(n div 262144) mod 64, (n div 4096) mod 64, (n div 64) mod 64] = [a, b]"
proof -
  have "n = 64 * (unat a * 1024 + unat b * 4)"
    by (simp add: n_def)
  then have low: "n mod 64 = 0"
    by simp
  have n0: "n = unat a * 65536 + unat b * 256 + 0"
    by (simp add: n_def)
  have bound: "n < 16777216"
    unfolding n0 by (rule bytes_split(3)) (simp_all add: unat_byte)
  have rebuilt: "(n div 262144) mod 64 * 262144 + (n div 4096) mod 64 * 4096
                   + (n div 64) mod 64 * 64 = n"
    using sextets_rebuild [OF bound] low by linarith
  have hi: "n div 65536 = unat a"
    unfolding n0 by (rule bytes_split(1)) (simp_all add: unat_byte)
  have mid: "n div 256 = unat a * 256 + unat b"
    unfolding n0 by (rule bytes_split(2)) (simp_all add: unat_byte)
  have b1: "(of_nat (unat a) :: byte) = a"
    by simp
  have b2: "(of_nat (unat a * 256 + unat b) :: byte) = b"
    by (subst byte_of_nat_low) simp
  show ?thesis
    unfolding sextetsToBytes.simps Let_def rebuilt hi mid b1 b2 by simp
qed

lemma group_of_one:
  fixes a :: byte
  defines "n \<equiv> unat a * 65536"
  shows "sextetsToBytes [(n div 262144) mod 64, (n div 4096) mod 64] = [a]"
proof -
  have "n = 64 * (unat a * 1024)"
    by (simp add: n_def)
  then have low: "n mod 64 = 0"
    by simp
  have "n div 64 = 64 * (unat a * 16)"
    by (simp add: n_def)
  then have low2: "(n div 64) mod 64 = 0"
    by simp
  have n0: "n = unat a * 65536 + 0 * 256 + 0"
    by (simp add: n_def)
  have bound: "n < 16777216"
    unfolding n0 by (rule bytes_split(3)) (simp_all add: unat_byte)
  have rebuilt: "(n div 262144) mod 64 * 262144 + (n div 4096) mod 64 * 4096 = n"
    using sextets_rebuild [OF bound] low low2 by linarith
  have hi: "n div 65536 = unat a"
    unfolding n0 by (rule bytes_split(1)) (simp_all add: unat_byte)
  have b1: "(of_nat (unat a) :: byte) = a"
    by simp
  show ?thesis
    unfolding sextetsToBytes.simps rebuilt hi b1 by simp
qed

lemma base64Decode_Char:
  "base64Decode (base64Char k # text) =
     sextetsToBytes (k mod 64 #
       List.map_filter base64Value (takeWhile (\<lambda>c. c \<noteq> CHR ''='') text))"
  by (simp add: base64Decode_def base64Char_not_pad base64Value_Char map_filter_simps)

lemma base64_roundtrip: "base64Decode (base64Encode bs) = bs"
proof (induction bs rule: base64Encode.induct)
  case (1 a b c rest)
  let ?n = "unat a * 65536 + unat b * 256 + unat c"
  have "base64Decode (base64Encode (a # b # c # rest)) =
        sextetsToBytes ((?n div 262144) mod 64 # (?n div 4096) mod 64 # (?n div 64) mod 64
          # ?n mod 64 # List.map_filter base64Value
              (takeWhile (\<lambda>c. c \<noteq> CHR ''='') (base64Encode rest)))"
    by (simp add: Let_def base64Decode_def base64Char_not_pad base64Value_Char map_filter_simps)
  also have "\<dots> = a # b # c # base64Decode (base64Encode rest)"
    unfolding group_of_three by (simp add: base64Decode_def)
  finally show ?case
    using 1 by simp
next
  case (2 a b)
  let ?n = "unat a * 65536 + unat b * 256"
  have "base64Decode (base64Encode [a, b]) =
        sextetsToBytes [(?n div 262144) mod 64, (?n div 4096) mod 64, (?n div 64) mod 64]"
    by (simp add: Let_def base64Decode_def base64Char_not_pad base64Value_Char map_filter_simps)
  then show ?case
    unfolding group_of_two .
next
  case (3 a)
  let ?n = "unat a * 65536"
  have "base64Decode (base64Encode [a]) =
        sextetsToBytes [(?n div 262144) mod 64, (?n div 4096) mod 64]"
    by (simp add: Let_def base64Decode_def base64Char_not_pad base64Value_Char map_filter_simps)
  then show ?case
    unfolding group_of_one .
next
  case 4
  show ?case
    by (simp add: base64Decode_def map_filter_simps)
qed

subsection \<open>Properties of backupExistingCredentials\<close>

text \<open>
  C5. When the credential service has a record for the identity and the write to
  \<open>outputPath\<close> is not refused, the backup returns the three secrets of the record
  (\<open>keystorePassword\<close>, \<open>keyAlias\<close>, \<open>keyPassword\<close>), whatever the \<open>logSecrets\<close> flag is
  (true, false or not given); and in every case, whatever the service answers, neither the
  result nor the files left depend on the flag.
\<close>

theorem backup_returns_secrets_for_every_flag:
  assumes "getCredentialsForPlatform
             \<lparr>username = username args, experienceName = experienceName args,
              platform = ''android''\<rparr> = Inr (Some credentials)"
    and "writeFault fs (outputPath args) = None"
  shows "result (backupExistingCredentials getCredentialsForPlatform bold fs args logSecrets) =
           Inr \<lparr>keystorePassword = credentials.keystorePassword credentials,
                keyAlias = keystoreAlias credentials,
                keyPassword = credentials.keyPassword credentials\<rparr> \<and>
         result (backupExistingCredentials service bold fs args logSecrets) =
           result (backupExistingCredentials service bold fs args logSecrets') \<and>
         filesAfter (backupExistingCredentials service bold fs args logSecrets) =
           filesAfter (backupExistingCredentials service bold fs args logSecrets')"
  using assms
  by (simp add: backupExistingCredentials_def Let_def writeFileSync_def
      split: sum.split option.split)

theorem backup_returns_secrets_for_every_flag_witness:
  "writeFault emptyFileSystem ''out.jks'' = None \<and>
   result (backupExistingCredentials
      (\<lambda>metadata. Inr (Some \<lparr>keystore = ''AQID'', keystorePassword = ''pw1'',
                                keyPassword = ''pw2'', keystoreAlias = ''alias''\<rparr>))
      (\<lambda>text. text) emptyFileSystem
      \<lparr>username = ''user'', experienceName = ''@user/app'', outputPath = ''out.jks''\<rparr>
      (Some False)) =
     Inr \<lparr>keystorePassword = ''pw1'', keyAlias = ''alias'', keyPassword = ''pw2''\<rparr>"
  using backup_returns_secrets_for_every_flag
    [of "\<lambda>metadata. Inr (Some \<lparr>keystore = ''AQID'', keystorePassword = ''pw1'',
                                keyPassword = ''pw2'', keystoreAlias = ''alias''\<rparr>)"
        "\<lparr>username = ''user'', experienceName = ''@user/app'', outputPath = ''out.jks''\<rparr>"
        "\<lparr>keystore = ''AQID'', keystorePassword = ''pw1'',
                                keyPassword = ''pw2'', keystoreAlias = ''alias''\<rparr>"
        emptyFileSystem "\<lambda>text. text" "Some False"]
  by (simp add: emptyFileSystem_def)

text \<open>
  C9. When the credential service resolves with no record, the backup throws the error
  "Unable to fetch credentials ..." and returns no secret, and the file system it leaves is
  the one it found: nothing was written, at \<open>outputPath\<close> or anywhere else.
\<close>

theorem backup_without_record_writes_nothing:
  assumes "getCredentialsForPlatform
             \<lparr>username = username args, experienceName = experienceName args,
              platform = ''android''\<rparr> = Inr None"
  shows "result (backupExistingCredentials getCredentialsForPlatform bold fs args logSecrets) =
           Inl (NewError
             ''Unable to fetch credentials for this project. Are you sure they exist?'') \<and>
         filesAfter (backupExistingCredentials getCredentialsForPlatform bold fs args logSecrets)
           = fs"
  using assms by (simp add: backupExistingCredentials_def Let_def)

theorem backup_without_record_writes_nothing_witness:
  "result (backupExistingCredentials (\<lambda>metadata. Inr None) (\<lambda>text. text)
      (emptyFileSystem\<lparr>files := (\<lambda>path. if path = ''out.jks'' then Some [1, 2] else None)\<rparr>)
      \<lparr>username = ''user'', experienceName = ''@user/app'', outputPath = ''out.jks''\<rparr>
      None) =
     Inl (NewError ''Unable to fetch credentials for this project. Are you sure they exist?'') \<and>
   files (filesAfter (backupExistingCredentials (\<lambda>metadata. Inr None) (\<lambda>text. text)
      (emptyFileSystem\<lparr>files := (\<lambda>path. if path = ''out.jks'' then Some [1, 2] else None)\<rparr>)
      \<lparr>username = ''user'', experienceName = ''@user/app'', outputPath = ''out.jks''\<rparr>
      None)) ''out.jks'' = Some [1, 2]"
  using backup_without_record_writes_nothing
    [of "\<lambda>metadata. Inr None"
        "\<lparr>username = ''user'', experienceName = ''@user/app'', outputPath = ''out.jks''\<rparr>"
        "\<lambda>text. text"
        "emptyFileSystem\<lparr>files := (\<lambda>path. if path = ''out.jks'' then Some [1, 2] else None)\<rparr>"
        None]
  by simp

text \<open>
  C6. When the record's keystore blob is the base64 text of the bytes \<open>original\<close> and
  neither the write nor the read of \<open>outputPath\<close> is refused, reading \<open>outputPath\<close> after
  the backup gives exactly \<open>original\<close>: decoding undoes the encoding, and the file holds
  what was written.
\<close>

theorem backup_keystore_roundtrip:
  assumes "getCredentialsForPlatform
             \<lparr>username = username args, experienceName = experienceName args,
              platform = ''android''\<rparr> = Inr (Some credentials)"
    and "credentials.keystore credentials = base64Encode original"
    and "writeFault fs (outputPath args) = None"
    and "readFault fs (outputPath args) = None"
  shows "base64Decode (credentials.keystore credentials) = original \<and>
         readFileSync
           (filesAfter (backupExistingCredentials getCredentialsForPlatform bold fs args logSecrets))
           (outputPath args) = Inr original"
  using assms
  by (simp add: backupExistingCredentials_def Let_def writeFileSync_def readFileSync_def
      base64_roundtrip)



theorem backup_keystore_roundtrip_witness:
  "base64Encode [0xFE, 0xED, 0xFE, 0xED, 0x00] = ''/u3+7QA='' \<and>
   readFileSync
     (filesAfter (backupExistingCredentials
        (\<lambda>metadata. Inr (Some \<lparr>keystore = ''/u3+7QA='', keystorePassword = ''pw1'',
                                  keyPassword = ''pw2'', keystoreAlias = ''alias''\<rparr>))
        (\<lambda>text. text) emptyFileSystem
        \<lparr>username = ''user'', experienceName = ''@user/app'', outputPath = ''out.jks''\<rparr>
        (Some False)))
     ''out.jks'' = Inr [0xFE, 0xED, 0xFE, 0xED, 0x00]"
proof -
  let ?creds = "\<lparr>keystore = ''/u3+7QA='', keystorePassword = ''pw1'',
                  keyPassword = ''pw2'', keystoreAlias = ''alias''\<rparr>"
  let ?args = "\<lparr>username = ''user'', experienceName = ''@user/app'', outputPath = ''out.jks''\<rparr>"
  have enc: "base64Encode [0xFE, 0xED, 0xFE, 0xED, 0x00] = ''/u3+7QA=''"
    by (simp add: base64Char_def base64Alphabet_def)
  have blob: "credentials.keystore ?creds = base64Encode [0xFE, 0xED, 0xFE, 0xED, 0x00]"
    unfolding enc by simp
  have faults: "writeFault emptyFileSystem (outputPath ?args) = None"
    "readFault emptyFileSystem (outputPath ?args) = None"
    by (simp_all add: emptyFileSystem_def)
  have "readFileSync
     (filesAfter (backupExistingCredentials (\<lambda>metadata. Inr (Some ?creds))
        (\<lambda>text. text) emptyFileSystem ?args (Some False)))
     (outputPath ?args) = Inr [0xFE, 0xED, 0xFE, 0xED, 0x00]"
    using backup_keystore_roundtrip
      [of "\<lambda>metadata. Inr (Some ?creds)" ?args ?creds "[0xFE, 0xED, 0xFE, 0xED, 0x00]"
          emptyFileSystem "\<lambda>text. text" "Some False", OF refl blob faults]
    by (rule conjunct2)
  then show ?thesis
    unfolding enc by simp
qed

subsection \<open>Secrets and the log\<close>











subsection \<open>Properties of exportPrivateKey\<close>

text \<open>Whenever a child was started, the two lines were written to it, however the
  session ends.\<close>

lemma ptySession_written:
  "ptySpawn env (javaExecutable (processPlatform env))
     [''-jar'', encryptToolPath env, ''--keystore'', keystorePath params,
      ''--alias'', keyAlias params, ''--output'', outputFile,
      ''--encryptionkey'', encryptionKey] = Inr events \<Longrightarrow>
   fst (snd (snd (ptySession env params encryptionKey outputFile))) =
     [keystorePassword params @ NEWLINE (processPlatform env),
      keyPassword params @ NEWLINE (processPlatform env)]"
  by (simp add: ptySession_def Let_def split: list.split ptyEvent.split)

text \<open>
  C4. In every run of \<open>exportPrivateKey\<close> that ends in success, what was written to the
  child on the pseudo-terminal is exactly two writes: the keystore password followed by
  \<open>NEWLINE\<close>, then the key password followed by \<open>NEWLINE\<close>, where \<open>NEWLINE\<close> is
  carriage return and line feed on \<open>win32\<close> and a line feed on every other platform. So the
  bytes the child receives are the first password, the line end, the second password, the
  line end, and nothing else.
\<close>

theorem exportPrivateKey_writes_two_lines:
  assumes "exportResult (exportPrivateKey env params encryptionKey outputFile) = Some (Inr ())"
  shows "written (exportPrivateKey env params encryptionKey outputFile) =
           [keystorePassword params @ NEWLINE (processPlatform env),
            keyPassword params @ NEWLINE (processPlatform env)] \<and>
         concat (written (exportPrivateKey env params encryptionKey outputFile)) =
           keystorePassword params @ NEWLINE (processPlatform env) @
           keyPassword params @ NEWLINE (processPlatform env) \<and>
         NEWLINE (processPlatform env) =
           (if processPlatform env = ''win32'' then [CHR 0x0D, CHR 0x0A] else [CHR 0x0A])"
  using assms
  by (auto simp: exportPrivateKey_def ptySession_def Let_def NEWLINE_def
      split: option.splits sum.splits list.splits ptyEvent.splits if_splits)

theorem exportPrivateKey_writes_two_lines_witness:
  "exportResult (exportPrivateKey
      \<lparr>processPlatform = ''linux'', encryptToolPath = ''/home/user/.expo/android_tools_pepk.jar'',
        toolExists = True, download = None,
        ptySpawn = (\<lambda>command args. Inr [PtyExit 0])\<rparr>
      \<lparr>keystorePassword = ''pw1'', keyAlias = ''alias'', keyPassword = ''pw2'',
        keystorePath = ''app.jks''\<rparr>
      ''eb10fe'' ''private_key.pepk'') = Some (Inr ()) \<and>
   written (exportPrivateKey
      \<lparr>processPlatform = ''linux'', encryptToolPath = ''/home/user/.expo/android_tools_pepk.jar'',
        toolExists = True, download = None,
        ptySpawn = (\<lambda>command args. Inr [PtyExit 0])\<rparr>
      \<lparr>keystorePassword = ''pw1'', keyAlias = ''alias'', keyPassword = ''pw2'',
        keystorePath = ''app.jks''\<rparr>
      ''eb10fe'' ''private_key.pepk'') = [''pw1\<newline>'', ''pw2\<newline>'']"
proof -
  let ?env = "\<lparr>processPlatform = ''linux'',
                encryptToolPath = ''/home/user/.expo/android_tools_pepk.jar'',
                toolExists = True, download = None,
                ptySpawn = (\<lambda>command args. Inr [PtyExit 0])\<rparr>"
  let ?params = "\<lparr>keystorePassword = ''pw1'', keyAlias = ''alias'', keyPassword = ''pw2'',
                   keystorePath = ''app.jks''\<rparr>"
  have ok: "exportResult (exportPrivateKey ?env ?params ''eb10fe'' ''private_key.pepk'')
              = Some (Inr ())"
    by (simp add: exportPrivateKey_def ptySession_def Let_def)
  from exportPrivateKey_writes_two_lines [OF ok, THEN conjunct1] ok
  show ?thesis
    by (simp add: NEWLINE_def)
qed

lemma exportResult_cases:
  "exportResult (exportPrivateKey env params encryptionKey outputFile) =
     (case (if toolExists env then None else download env) of
        Some err \<Rightarrow> Some (Inl (Propagated err))
      | None \<Rightarrow>
          (case ptySpawn env (javaExecutable (processPlatform env))
                  [''-jar'', encryptToolPath env, ''--keystore'', keystorePath params,
                   ''--alias'', keyAlias params, ''--output'', outputFile,
                   ''--encryptionkey'', encryptionKey] of
             Inl err \<Rightarrow>
               Some (Inl (NewError (''PEPK tool failed with return code '' @ errorToString err)))
           | Inr [] \<Rightarrow> None
           | Inr (PtyError err # later) \<Rightarrow>
               Some (Inl (NewError (''PEPK tool failed with return code '' @ errorToString err)))
           | Inr (PtyExit exitCode # later) \<Rightarrow>
               if exitCode = 0 then Some (Inr ())
               else Some (Inl (NewError (''PEPK tool failed with return code ''
                                         @ intToString exitCode)))))"
  by (simp add: exportPrivateKey_def ptySession_def Let_def rejectionToString_def
      split: option.split sum.split list.split ptyEvent.split)

text \<open>The decimal digits of a number, read back, give the number.\<close>

lemma digit_value: "k < 10 \<Longrightarrow> of_char (''0123456789'' ! k) - 48 = k"
proof -
  assume "k < 10"
  then have "k \<in> {0, 1, 2, 3, 4, 5, 6, 7, 8, 9}"
    by simp arith
  then show ?thesis
    by auto
qed

lemma digit_not_minus: "k < 10 \<Longrightarrow> ''0123456789'' ! k \<noteq> CHR ''-''"
proof -
  assume "k < 10"
  then have "k \<in> {0, 1, 2, 3, 4, 5, 6, 7, 8, 9}"
    by simp arith
  then show ?thesis
    by auto
qed

lemma digitsValue_snoc: "digitsValue (s @ [c]) = digitsValue s * 10 + (of_char c - 48)"
  by (simp add: digitsValue_def)

lemma digitsValue_natToString: "digitsValue (natToString n) = n"
proof (induction n rule: natToString.induct)
  case (1 n)
  show ?case
  proof (cases "n < 10")
    case True
    then show ?thesis
      by (subst natToString.simps) (simp add: digitsValue_def digit_value)
  next
    case False
    have "n mod 10 < 10"
      by simp
    then have "of_char (''0123456789'' ! (n mod 10)) - 48 = n mod 10"
      by (rule digit_value)
    with False 1 show ?thesis
      by (subst natToString.simps) (simp add: digitsValue_snoc)
  qed
qed

lemma natToString_first: "\<exists>c rest. natToString n = c # rest \<and> c \<noteq> CHR ''-''"
proof (induction n rule: natToString.induct)
  case (1 n)
  show ?case
  proof (cases "n < 10")
    case True
    then show ?thesis
      by (subst natToString.simps) (simp add: digit_not_minus)
  next
    case False
    with 1 obtain c rest where "natToString (n div 10) = c # rest" and "c \<noteq> CHR ''-''"
      by blast
    with False show ?thesis
      by (subst natToString.simps) simp
  qed
qed

lemma decimalValue_intToString: "decimalValue (intToString i) = i"
proof (cases "i < 0")
  case True
  then show ?thesis
    by (simp add: intToString_def decimalValue_def digitsValue_natToString)
next
  case False
  obtain c rest where first: "natToString (nat i) = c # rest" and "c \<noteq> CHR ''-''"
    using natToString_first by blast
  then have "decimalValue (natToString (nat i)) = int (digitsValue (natToString (nat i)))"
    by (simp add: decimalValue_def)
  with False show ?thesis
    by (simp add: intToString_def digitsValue_natToString)
qed

text \<open>
  C8, as stated, fails. A child that emits an \<open>error\<close> event and then exits with code 0
  is a tool that exits with code 0 after neither a spawn error nor a non-zero exit code;
  but the handler of \<open>error\<close> has rejected the promise before the exit is seen, and the
  function throws.
\<close>

theorem exportPrivateKey_exit_0_after_error_fails:
  "exportResult (exportPrivateKey
      \<lparr>processPlatform = ''linux'', encryptToolPath = ''/home/user/.expo/android_tools_pepk.jar'',
        toolExists = True, download = None,
        ptySpawn = (\<lambda>command args.
          Inr [PtyError \<lparr>name = ''Error'', message = ''read EIO'', code = Some ''EIO'',
                          stdout = None, stderr = None\<rparr>,
               PtyExit 0])\<rparr>
      \<lparr>keystorePassword = ''pw1'', keyAlias = ''alias'', keyPassword = ''pw2'',
        keystorePath = ''app.jks''\<rparr>
      ''eb10fe'' ''private_key.pepk'') =
     Some (Inl (NewError ''PEPK tool failed with return code Error: read EIO'')) \<and>
   exportResult (exportPrivateKey
      \<lparr>processPlatform = ''linux'', encryptToolPath = ''/home/user/.expo/android_tools_pepk.jar'',
        toolExists = True, download = None,
        ptySpawn = (\<lambda>command args.
          Inr [PtyError \<lparr>name = ''Error'', message = ''read EIO'', code = Some ''EIO'',
                          stdout = None, stderr = None\<rparr>,
               PtyExit 0])\<rparr>
      \<lparr>keystorePassword = ''pw1'', keyAlias = ''alias'', keyPassword = ''pw2'',
        keystorePath = ''app.jks''\<rparr>
      ''eb10fe'' ''private_key.pepk'') \<noteq> Some (Inr ())"
  by (simp add: exportPrivateKey_def ptySession_def Let_def rejectionToString_def
      errorToString_def)

text \<open>
  C8, amended. Let the tool be at hand (it exists, or its download did not fail). What
  decides the outcome is what settles the promise around the child first: an exception of
  \<open>ptySpawn\<close>, or the first event the child emits; later events change nothing.
  \<open>exportPrivateKey\<close> returns (with no value) exactly when that first event is \<open>exit\<close>
  with code 0, and the child it started was given \<open>--output\<close> with the output path. It
  throws an error made with \<open>new Error\<close> exactly when \<open>ptySpawn\<close> throws, or the first
  event is \<open>error\<close>, or it is \<open>exit\<close> with a code other than 0. The message is
  "PEPK tool failed with return code " followed by the cause: the exit code in decimal
  digits, which read back give the exit code, or the text of the error object, which is
  its name, a colon and a blank, and its message (the message alone, or the name alone,
  when the other is empty). When the tool is missing and its download fails, no child
  is started and the error of the download is thrown as it is.
\<close>

theorem exportPrivateKey_outcome_is_first_settlement:
  fixes env :: exportEnv and params :: keystoreParams and encryptionKey outputFile :: string
  defines "run \<equiv> exportPrivateKey env params encryptionKey outputFile"
    and "commandLine \<equiv> [''-jar'', encryptToolPath env, ''--keystore'', keystorePath params,
                   ''--alias'', keyAlias params, ''--output'', outputFile,
                   ''--encryptionkey'', encryptionKey]"
    and "available \<equiv> (toolExists env \<or> download env = None)"
  defines "child \<equiv> ptySpawn env (javaExecutable (processPlatform env)) commandLine"
  shows "((exportResult run = Some (Inr ())) =
            (available \<and> (\<exists>later. child = Inr (PtyExit 0 # later)))) \<and>
         (exportResult run = Some (Inr ()) \<longrightarrow>
            spawned run = Some (javaExecutable (processPlatform env), commandLine)) \<and>
         ((\<exists>text. exportResult run = Some (Inl (NewError text))) =
            (available \<and>
              ((\<exists>err. child = Inl err) \<or>
               (\<exists>err later. child = Inr (PtyError err # later)) \<or>
               (\<exists>exitCode later. child = Inr (PtyExit exitCode # later) \<and> exitCode \<noteq> 0)))) \<and>
         (available \<longrightarrow> child = Inr (PtyExit exitCode # later) \<longrightarrow> exitCode \<noteq> 0 \<longrightarrow>
            exportResult run = Some (Inl (NewError
              (''PEPK tool failed with return code '' @ intToString exitCode))) \<and>
            decimalValue (intToString exitCode) = exitCode) \<and>
         (available \<longrightarrow> child = Inr (PtyError err # later) \<longrightarrow>
            exportResult run = Some (Inl (NewError
              (''PEPK tool failed with return code '' @
                 (if name err = [] then message err
                  else if message err = [] then name err
                  else name err @ '': '' @ message err))))) \<and>
         (available \<longrightarrow> child = Inl err \<longrightarrow>
            exportResult run = Some (Inl (NewError
              (''PEPK tool failed with return code '' @
                 (if name err = [] then message err
                  else if message err = [] then name err
                  else name err @ '': '' @ message err))))) \<and>
         (\<not> toolExists env \<longrightarrow> download env = Some err \<longrightarrow>
            exportResult run = Some (Inl (Propagated err)) \<and> spawned run = None)"
proof -
  have r: "exportResult run =
     (case (if toolExists env then None else download env) of
        Some err \<Rightarrow> Some (Inl (Propagated err))
      | None \<Rightarrow>
          (case child of
             Inl err \<Rightarrow>
               Some (Inl (NewError (''PEPK tool failed with return code '' @ errorToString err)))
           | Inr [] \<Rightarrow> None
           | Inr (PtyError err # later) \<Rightarrow>
               Some (Inl (NewError (''PEPK tool failed with return code '' @ errorToString err)))
           | Inr (PtyExit exitCode # later) \<Rightarrow>
               if exitCode = 0 then Some (Inr ())
               else Some (Inl (NewError (''PEPK tool failed with return code ''
                                         @ intToString exitCode)))))"
    unfolding run_def child_def commandLine_def by (rule exportResult_cases)
  have c1: "(exportResult run = Some (Inr ())) =
            (available \<and> (\<exists>later. child = Inr (PtyExit 0 # later)))"
    unfolding r available_def
    by (auto split: option.splits sum.splits list.splits ptyEvent.splits if_splits)
  have c2: "exportResult run = Some (Inr ()) \<longrightarrow>
            spawned run = Some (javaExecutable (processPlatform env), commandLine)"
    unfolding run_def commandLine_def
    by (auto simp: exportPrivateKey_def ptySession_def Let_def
        split: option.splits sum.splits list.splits ptyEvent.splits if_splits)
  have c3: "(\<exists>text. exportResult run = Some (Inl (NewError text))) =
            (available \<and>
              ((\<exists>err. child = Inl err) \<or>
               (\<exists>err later. child = Inr (PtyError err # later)) \<or>
               (\<exists>exitCode later. child = Inr (PtyExit exitCode # later) \<and> exitCode \<noteq> 0)))"
    unfolding r available_def
    by (auto split: option.splits sum.splits list.splits ptyEvent.splits if_splits)
  have c4: "available \<longrightarrow> child = Inr (PtyExit exitCode # later) \<longrightarrow> exitCode \<noteq> 0 \<longrightarrow>
            exportResult run = Some (Inl (NewError
              (''PEPK tool failed with return code '' @ intToString exitCode))) \<and>
            decimalValue (intToString exitCode) = exitCode"
    unfolding r available_def by (auto simp: decimalValue_intToString)
  have c5: "available \<longrightarrow> child = Inr (PtyError err # later) \<longrightarrow>
            exportResult run = Some (Inl (NewError
              (''PEPK tool failed with return code '' @
                 (if name err = [] then message err
                  else if message err = [] then name err
                  else name err @ '': '' @ message err))))"
    unfolding r available_def by (auto simp: errorToString_def)
  have c6: "available \<longrightarrow> child = Inl err \<longrightarrow>
            exportResult run = Some (Inl (NewError
              (''PEPK tool failed with return code '' @
                 (if name err = [] then message err
                  else if message err = [] then name err
                  else name err @ '': '' @ message err))))"
    unfolding r available_def by (auto simp: errorToString_def)
  have c7: "\<not> toolExists env \<longrightarrow> download env = Some err \<longrightarrow>
            exportResult run = Some (Inl (Propagated err)) \<and> spawned run = None"
    unfolding run_def by (simp add: exportPrivateKey_def Let_def)
  from c1 c2 c3 c4 c5 c6 c7 show ?thesis
    by (intro conjI)
qed

theorem exportPrivateKey_outcome_is_first_settlement_witness:
  "exportResult (exportPrivateKey
      \<lparr>processPlatform = ''win32'', encryptToolPath = ''C:/Users/user/.expo/android_tools_pepk.jar'',
        toolExists = True, download = None,
        ptySpawn = (\<lambda>command args. Inr [PtyExit 12])\<rparr>
      \<lparr>keystorePassword = ''pw1'', keyAlias = ''alias'', keyPassword = ''pw2'',
        keystorePath = ''app.jks''\<rparr>
      ''eb10fe'' ''private_key.pepk'') =
     Some (Inl (NewError ''PEPK tool failed with return code 12'')) \<and>
   decimalValue ''12'' = 12"
proof -
  let ?env = "\<lparr>processPlatform = ''win32'',
                encryptToolPath = ''C:/Users/user/.expo/android_tools_pepk.jar'',
                toolExists = True, download = None,
                ptySpawn = (\<lambda>command args. Inr [PtyExit 12])\<rparr>"
  let ?params = "\<lparr>keystorePassword = ''pw1'', keyAlias = ''alias'', keyPassword = ''pw2'',
                   keystorePath = ''app.jks''\<rparr>"
  have digits: "intToString 12 = ''12''"
    by (simp add: intToString_def natToString.simps)
  note facts = exportPrivateKey_outcome_is_first_settlement
    [of ?env ?params "''eb10fe''" "''private_key.pepk''" 12 "[]"]
  from facts [THEN conjunct2, THEN conjunct2, THEN conjunct2, THEN conjunct1]
  have "exportResult (exportPrivateKey ?env ?params ''eb10fe'' ''private_key.pepk'') =
          Some (Inl (NewError (''PEPK tool failed with return code '' @ intToString 12))) \<and>
        decimalValue (intToString 12) = 12"
    by simp
  then show ?thesis
    unfolding digits by simp
qed

subsection \<open>Properties of generateUploadKeystore\<close>

lemma lowerHex_not_hyphen: "lowerHexChar c \<Longrightarrow> c \<noteq> CHR ''-''"
  by (auto simp: lowerHexChar_def)

lemma removeHyphens_hex: "list_all lowerHexChar s \<Longrightarrow> removeHyphens s = s"
  by (induction s) (auto simp: removeHyphens_def lowerHex_not_hyphen)

lemma removeHyphens_append: "removeHyphens (s @ t) = removeHyphens s @ removeHyphens t"
  by (simp add: removeHyphens_def)

lemma removeHyphens_hyphen: "removeHyphens (CHR ''-'' # s) = removeHyphens s"
  by (simp add: removeHyphens_def)

lemma no_hyphen_left: "CHR ''-'' \<notin> set (removeHyphens s)"
  by (simp add: removeHyphens_def)

lemma removeHyphens_uuid:
  assumes "uuidText u"
  shows "length (removeHyphens u) = 32 \<and> list_all lowerHexChar (removeHyphens u)"
proof -
  define g1 where "g1 = take 8 u"
  define g2 where "g2 = take 4 (drop 9 u)"
  define g3 where "g3 = take 4 (drop 14 u)"
  define g4 where "g4 = take 4 (drop 19 u)"
  define g5 where "g5 = drop 24 u"
  from assms have u: "u = g1 @ ''-'' @ g2 @ ''-'' @ g3 @ ''-'' @ g4 @ ''-'' @ g5"
    and len: "length g1 = 8" "length g2 = 4" "length g3 = 4" "length g4 = 4" "length g5 = 12"
    and hex: "list_all lowerHexChar (g1 @ g2 @ g3 @ g4 @ g5)"
    unfolding uuidText_def Let_def g1_def g2_def g3_def g4_def g5_def by blast+
  from hex have each: "list_all lowerHexChar g1" "list_all lowerHexChar g2"
    "list_all lowerHexChar g3" "list_all lowerHexChar g4" "list_all lowerHexChar g5"
    by simp_all
  have "removeHyphens u = g1 @ g2 @ g3 @ g4 @ g5"
    by (subst u) (simp add: removeHyphens_append removeHyphens_hyphen removeHyphens_hex each)
  then show ?thesis
    using len hex by simp
qed

text \<open>
  C7. When both calls of \<open>uuidv4\<close> return the canonical text of a UUID and \<open>keytool\<close>
  does not fail, \<open>generateUploadKeystore\<close> returns an object whose \<open>keystorePassword\<close> and
  \<open>keyPassword\<close> are the two UUIDs without their hyphens: 32 characters each, lower-case
  hexadecimal digits, no hyphen. Its \<open>keyAlias\<close> is the base64 text of the application
  name; so whatever another call is given besides the same application name, a
  \<open>keyAlias\<close> it returns is the same.
\<close>

theorem generateUploadKeystore_secrets:
  assumes "uuidText (uuidv4 0)" and "uuidText (uuidv4 1)"
    and "fst (createKeystore spawnAsync fs
            \<lparr>keystorePassword = removeHyphens (uuidv4 0),
             keyAlias = base64Encode (bufferFromString appName),
             keyPassword = removeHyphens (uuidv4 1),
             keystorePath = uploadKeystorePath\<rparr> androidPackage) = None"
  shows "(\<exists>data.
            result (generateUploadKeystore uuidv4 spawnAsync fs uploadKeystorePath androidPackage
                      appName) = Inr data \<and>
            keystorePassword data = removeHyphens (uuidv4 0) \<and>
            length (keystorePassword data) = 32 \<and>
            CHR ''-'' \<notin> set (keystorePassword data) \<and>
            list_all lowerHexChar (keystorePassword data) \<and>
            keyPassword data = removeHyphens (uuidv4 1) \<and>
            length (keyPassword data) = 32 \<and>
            CHR ''-'' \<notin> set (keyPassword data) \<and>
            list_all lowerHexChar (keyPassword data) \<and>
            keyAlias data = base64Encode (bufferFromString appName)) \<and>
         (\<forall>data'.
            result (generateUploadKeystore uuidv4' spawnAsync' fs' uploadKeystorePath'
                      androidPackage' appName) = Inr data' \<longrightarrow>
            keyAlias data' = base64Encode (bufferFromString appName))"
proof -
  let ?data = "\<lparr>keystorePassword = removeHyphens (uuidv4 0),
                 keyAlias = base64Encode (bufferFromString appName),
                 keyPassword = removeHyphens (uuidv4 1)\<rparr>"
  have returned: "result (generateUploadKeystore uuidv4 spawnAsync fs uploadKeystorePath
                    androidPackage appName) = Inr ?data"
  proof (cases "createKeystore spawnAsync fs
            \<lparr>keystorePassword = removeHyphens (uuidv4 0),
             keyAlias = base64Encode (bufferFromString appName),
             keyPassword = removeHyphens (uuidv4 1),
             keystorePath = uploadKeystorePath\<rparr> androidPackage")
    case (Pair failure fs1)
    with assms(3) have "failure = None"
      by simp
    with Pair show ?thesis
      by (simp add: generateUploadKeystore_def Let_def)
  qed
  have first: "\<exists>data.
            result (generateUploadKeystore uuidv4 spawnAsync fs uploadKeystorePath androidPackage
                      appName) = Inr data \<and>
            keystorePassword data = removeHyphens (uuidv4 0) \<and>
            length (keystorePassword data) = 32 \<and>
            CHR ''-'' \<notin> set (keystorePassword data) \<and>
            list_all lowerHexChar (keystorePassword data) \<and>
            keyPassword data = removeHyphens (uuidv4 1) \<and>
            length (keyPassword data) = 32 \<and>
            CHR ''-'' \<notin> set (keyPassword data) \<and>
            list_all lowerHexChar (keyPassword data) \<and>
            keyAlias data = base64Encode (bufferFromString appName)"
    using returned removeHyphens_uuid [OF assms(1)] removeHyphens_uuid [OF assms(2)]
    by (intro exI [of _ ?data]) (simp add: no_hyphen_left)
  have second: "\<forall>data'.
            result (generateUploadKeystore uuidv4' spawnAsync' fs' uploadKeystorePath'
                      androidPackage' appName) = Inr data' \<longrightarrow>
            keyAlias data' = base64Encode (bufferFromString appName)"
    by (auto simp: generateUploadKeystore_def Let_def split: prod.splits option.splits)
  from first second show ?thesis ..
qed

theorem generateUploadKeystore_secrets_witness:
  "uuidText ''110ec58a-a0f2-4ac4-8393-c866d813b8d1'' \<and>
   uuidText ''6ba7b810-9dad-41d1-80b4-00c04fd430c8'' \<and>
   result (generateUploadKeystore
      (\<lambda>k. if k = 0 then ''110ec58a-a0f2-4ac4-8393-c866d813b8d1''
            else ''6ba7b810-9dad-41d1-80b4-00c04fd430c8'')
      (\<lambda>command args disk. (None, disk)) emptyFileSystem
      ''upload.jks'' ''com.user.app'' ''@user/app'') =
     Inr \<lparr>keystorePassword = ''110ec58aa0f24ac48393c866d813b8d1'',
          keyAlias = ''QHVzZXIvYXBw'',
          keyPassword = ''6ba7b8109dad41d180b400c04fd430c8''\<rparr>"
proof -
  let ?uuidv4 = "\<lambda>k::nat. if k = 0 then ''110ec58a-a0f2-4ac4-8393-c866d813b8d1''
                       else ''6ba7b810-9dad-41d1-80b4-00c04fd430c8''"
  let ?spawn = "\<lambda>(command::string) (args::string list) (disk::fileSystem).
                  (None::jsError option, disk)"
  have u0: "uuidText ''110ec58a-a0f2-4ac4-8393-c866d813b8d1''"
    by (simp add: uuidText_def lowerHexChar_def)
  have u1: "uuidText ''6ba7b810-9dad-41d1-80b4-00c04fd430c8''"
    by (simp add: uuidText_def lowerHexChar_def)
  have h0: "uuidText (?uuidv4 0)"
    using u0 by simp
  have h1: "uuidText (?uuidv4 1)"
    using u1 by simp
  have tool: "fst (createKeystore ?spawn emptyFileSystem
            \<lparr>keystorePassword = removeHyphens (?uuidv4 0),
             keyAlias = base64Encode (bufferFromString ''@user/app''),
             keyPassword = removeHyphens (?uuidv4 1),
             keystorePath = ''upload.jks''\<rparr> ''com.user.app'') = None"
    by (simp add: createKeystore_def)
  have p0: "removeHyphens (?uuidv4 0) = ''110ec58aa0f24ac48393c866d813b8d1''"
    by (simp add: removeHyphens_def)
  have p1: "removeHyphens (?uuidv4 1) = ''6ba7b8109dad41d180b400c04fd430c8''"
    by (simp add: removeHyphens_def)
  have encoded: "base64Encode (bufferFromString ''@user/app'') = ''QHVzZXIvYXBw''"
    by (simp add: bufferFromString_def base64Char_def base64Alphabet_def)
  from generateUploadKeystore_secrets [OF h0 h1 tool, THEN conjunct1]
  obtain data where
    "result (generateUploadKeystore ?uuidv4 ?spawn emptyFileSystem ''upload.jks''
               ''com.user.app'' ''@user/app'') = Inr data"
    and "keystorePassword data = removeHyphens (?uuidv4 0)"
    and "keyPassword data = removeHyphens (?uuidv4 1)"
    and "keyAlias data = base64Encode (bufferFromString ''@user/app'')"
    by blast
  then have "result (generateUploadKeystore ?uuidv4 ?spawn emptyFileSystem ''upload.jks''
               ''com.user.app'' ''@user/app'') =
     Inr \<lparr>keystorePassword = ''110ec58aa0f24ac48393c866d813b8d1'',
          keyAlias = ''QHVzZXIvYXBw'',
          keyPassword = ''6ba7b8109dad41d180b400c04fd430c8''\<rparr>"
    unfolding p0 p1 encoded by (cases data) simp
  with u0 u1 show ?thesis
    by blast
qed

subsection \<open>Properties of the web-preview opener\<close>

lemma hasWebSupport_platforms:
  "readConfigJsonAsync env projectRoot = Inr (Exp (Some platforms)) \<Longrightarrow>
   hasWebSupportAsync env projectRoot = Inr (''web'' \<in> set platforms)"
  by (simp add: hasWebSupportAsync_def)

text \<open>
  C10. Let the project configuration be read and hold a list of platforms. When the
  list does not include \<open>web\<close>, the opener resolves with \<open>{ success: false }\<close>, and all it
  did was to log the set-up text: no URL was constructed or opened. When the list includes
  \<open>web\<close> and constructing the URL throws \<open>e\<close>, or the URL is constructed and \<open>opn\<close>
  throws \<open>e\<close>, the opener does not reject: it resolves with
  \<open>{ success: false, error: e }\<close>. (When neither throws it resolves with
  \<open>{ success: true, url }\<close>.)
\<close>

theorem openProjectAsync_catches_errors:
  assumes "readConfigJsonAsync env projectRoot = Inr (Exp (Some platforms))"
  shows "(''web'' \<notin> set platforms \<longrightarrow>
            openProjectAsync env projectRoot =
              \<lparr>effects = [GlobalError (webSetupLogs env)],
               returned = Inr \<lparr>success = False, url = None, error = None\<rparr>\<rparr>) \<and>
         (''web'' \<in> set platforms \<longrightarrow> constructWebAppUrlAsync env projectRoot = Inl e \<longrightarrow>
            returned (openProjectAsync env projectRoot) =
              Inr \<lparr>success = False, url = None, error = Some e\<rparr>) \<and>
         (''web'' \<in> set platforms \<longrightarrow> constructWebAppUrlAsync env projectRoot = Inr address \<longrightarrow>
            opn env address = Some e \<longrightarrow>
            returned (openProjectAsync env projectRoot) =
              Inr \<lparr>success = False, url = None, error = Some e\<rparr>) \<and>
         (''web'' \<in> set platforms \<longrightarrow> constructWebAppUrlAsync env projectRoot = Inr address \<longrightarrow>
            opn env address = None \<longrightarrow>
            returned (openProjectAsync env projectRoot) =
              Inr \<lparr>success = True, url = Some address, error = None\<rparr>)"
  using hasWebSupport_platforms [OF assms]
  by (simp add: openProjectAsync_def logWebSetup_def)

theorem openProjectAsync_catches_errors_witness:
  "openProjectAsync
     \<lparr>readConfigJsonAsync = (\<lambda>root. Inr (Exp (Some [''ios'', ''android'']))),
      constructWebAppUrlAsync = (\<lambda>root. Inr ''http://localhost:19006''),
      opn = (\<lambda>address. None),
      webSetupLogs = ''Your project is not configured to support web yet!'',
      boldYellow = (\<lambda>line. line)\<rparr> ''/home/user/app'' =
     \<lparr>effects = [GlobalError ''Your project is not configured to support web yet!''],
      returned = Inr \<lparr>success = False, url = None, error = None\<rparr>\<rparr> \<and>
   returned (openProjectAsync
     \<lparr>readConfigJsonAsync = (\<lambda>root. Inr (Exp (Some [''ios'', ''android'', ''web'']))),
      constructWebAppUrlAsync =
        (\<lambda>root. Inl \<lparr>name = ''Error'', message = ''No webpack server running'',
                        code = None, stdout = None, stderr = None\<rparr>),
      opn = (\<lambda>address. None),
      webSetupLogs = ''Your project is not configured to support web yet!'',
      boldYellow = (\<lambda>line. line)\<rparr> ''/home/user/app'') =
     Inr \<lparr>success = False, url = None,
          error = Some \<lparr>name = ''Error'', message = ''No webpack server running'',
                         code = None, stdout = None, stderr = None\<rparr>\<rparr>"
proof -
  let ?e = "\<lparr>name = ''Error'', message = ''No webpack server running'',
             code = None, stdout = None, stderr = None\<rparr>"
  let ?env1 = "\<lparr>readConfigJsonAsync = (\<lambda>root. Inr (Exp (Some [''ios'', ''android'']))),
      constructWebAppUrlAsync = (\<lambda>root. Inr ''http://localhost:19006''),
      opn = (\<lambda>address. None),
      webSetupLogs = ''Your project is not configured to support web yet!'',
      boldYellow = (\<lambda>line. line)\<rparr>"
  let ?env2 = "\<lparr>readConfigJsonAsync = (\<lambda>root. Inr (Exp (Some [''ios'', ''android'', ''web'']))),
      constructWebAppUrlAsync = (\<lambda>root. Inl ?e),
      opn = (\<lambda>address. None),
      webSetupLogs = ''Your project is not configured to support web yet!'',
      boldYellow = (\<lambda>line. line)\<rparr>"
  have c1: "readConfigJsonAsync ?env1 ''/home/user/app'' = Inr (Exp (Some [''ios'', ''android'']))"
    by simp
  have c2: "readConfigJsonAsync ?env2 ''/home/user/app'' =
              Inr (Exp (Some [''ios'', ''android'', ''web'']))"
    by simp
  from openProjectAsync_catches_errors [OF c1, THEN conjunct1]
  have first: "openProjectAsync ?env1 ''/home/user/app'' =
     \<lparr>effects = [GlobalError ''Your project is not configured to support web yet!''],
      returned = Inr \<lparr>success = False, url = None, error = None\<rparr>\<rparr>"
    by simp
  from openProjectAsync_catches_errors [OF c2, of ?e, THEN conjunct2, THEN conjunct1]
  have second: "returned (openProjectAsync ?env2 ''/home/user/app'') =
     Inr \<lparr>success = False, url = None, error = Some ?e\<rparr>"
    by simp
  from first second show ?thesis
    by (rule conjI)
qed

subsection \<open>Properties of logKeystoreHashes\<close>

text \<open>The \<open>finally\<close> block with a \<open>log\<close> that has an \<open>error\<close> method never throws.\<close>

lemma hashesFinally_with_error_method:
  "hasError log \<Longrightarrow> snd (snd (hashesFinally log fs certFile)) = None"
  by (simp add: hashesFinally_def split: sum.split)

text \<open>
  With such a \<open>log\<close> the outcome of the function is the outcome of the \<open>try\<close> and
  \<open>catch\<close> blocks, whatever the unlink of the certificate file does.
\<close>

lemma logKeystoreHashes_outcome_with_error_method:
  assumes "hasError log"
  shows "result (logKeystoreHashes spawnAsync sha1 sha256 fs params (Some log)) =
           (case snd (snd (hashesTry spawnAsync sha1 sha256 fs params
                             (keystorePath params @ ''.cer''))) of
              None \<Rightarrow> Inr ()
            | Some err \<Rightarrow> Inl (snd (hashesCatch log err)))"
proof -
  obtain fs1 tryLog tryError
    where t: "hashesTry spawnAsync sha1 sha256 fs params (keystorePath params @ ''.cer'')
                = (fs1, tryLog, tryError)"
    by (cases "hashesTry spawnAsync sha1 sha256 fs params (keystorePath params @ ''.cer'')")
  obtain fs2 finallyLog finallyError
    where f: "hashesFinally log fs1 (keystorePath params @ ''.cer'')
                = (fs2, finallyLog, finallyError)"
    by (cases "hashesFinally log fs1 (keystorePath params @ ''.cer'')")
  have "finallyError = None"
    using hashesFinally_with_error_method [OF assms, of fs1 "keystorePath params @ ''.cer''"] f
    by simp
  then show ?thesis
    using t f
    by (simp add: logKeystoreHashes_def logParameter_def Let_def
        split: option.split prod.split)
qed

text \<open>
  When the operating system does not refuse the unlink, no certificate file is left,
  whether the export succeeded or failed and whatever \<open>log\<close> is.
\<close>

lemma logKeystoreHashes_leaves_no_certificate:
  assumes "unlinkFault (fst (hashesTry spawnAsync sha1 sha256 fs params
                               (keystorePath params @ ''.cer'')))
             (keystorePath params @ ''.cer'') = None"
  shows "files (filesAfter (logKeystoreHashes spawnAsync sha1 sha256 fs params logGiven))
           (keystorePath params @ ''.cer'') = None"
proof -
  obtain fs1 tryLog tryError
    where t: "hashesTry spawnAsync sha1 sha256 fs params (keystorePath params @ ''.cer'')
                = (fs1, tryLog, tryError)"
    by (cases "hashesTry spawnAsync sha1 sha256 fs params (keystorePath params @ ''.cer'')")
  have "files (fst (hashesFinally (logParameter logGiven) fs1 (keystorePath params @ ''.cer'')))
          (keystorePath params @ ''.cer'') = None"
    using assms t
    by (simp add: hashesFinally_def unlinkSync_def enoent_def split: option.split)
  then show ?thesis
    using t
    by (cases "hashesFinally (logParameter logGiven) fs1 (keystorePath params @ ''.cer'')")
       (simp add: logKeystoreHashes_def Let_def split: option.split prod.split)
qed

text \<open>
  C3 does not hold of the code for a caller that passes no \<open>log\<close>. The default,
  \<open>logger.info.bind(logger)\<close>, has no \<open>error\<close> method. Here \<open>keytool\<close> succeeds and writes
  the certificate, the four hashes are logged, and the unlink of the certificate file is
  refused with \<open>EPERM\<close>: the call of \<open>log.error\<close> in the \<open>finally\<close> block throws a
  \<open>TypeError\<close>, which becomes the outcome of the function in place of its success, and the
  cleanup error is not reported. With a \<open>log\<close> that has the method, the same run logs the
  cleanup error and keeps its success.
\<close>

theorem logKeystoreHashes_default_log_cleanup_error:
  "result (logKeystoreHashes
      (\<lambda>command args disk.
         (None, disk\<lparr>files := (files disk)(''app.jks.cer'' := Some [0x30, 0x82])\<rparr>))
      (\<lambda>data. [0xDA, 0x39]) (\<lambda>data. [0xE3, 0xB0])
      (emptyFileSystem\<lparr>unlinkFault :=
         (\<lambda>path. if path = ''app.jks.cer''
                 then Some \<lparr>name = ''Error'', message = ''EPERM: operation not permitted'',
                             code = Some ''EPERM'', stdout = None, stderr = None\<rparr>
                 else None)\<rparr>)
      \<lparr>keystorePassword = ''pw1'', keyAlias = ''alias'', keyPassword = ''pw2'',
        keystorePath = ''app.jks''\<rparr>
      None) = Inl (TypeError ''log.error is not a function'') \<and>
   logged (logKeystoreHashes
      (\<lambda>command args disk.
         (None, disk\<lparr>files := (files disk)(''app.jks.cer'' := Some [0x30, 0x82])\<rparr>))
      (\<lambda>data. [0xDA, 0x39]) (\<lambda>data. [0xE3, 0xB0])
      (emptyFileSystem\<lparr>unlinkFault :=
         (\<lambda>path. if path = ''app.jks.cer''
                 then Some \<lparr>name = ''Error'', message = ''EPERM: operation not permitted'',
                             code = Some ''EPERM'', stdout = None, stderr = None\<rparr>
                 else None)\<rparr>)
      \<lparr>keystorePassword = ''pw1'', keyAlias = ''alias'', keyPassword = ''pw2'',
        keystorePath = ''app.jks''\<rparr>
      None) =
     [Log [Str ''Google Certificate Fingerprint:     DA:39''],
      Log [Str ''Google Certificate Hash (SHA-1):    DA39''],
      Log [Str ''Google Certificate Hash (SHA-256):  E3B0''],
      Log [Str ''Facebook Key Hash:                  2jk='']] \<and>
   result (logKeystoreHashes
      (\<lambda>command args disk.
         (None, disk\<lparr>files := (files disk)(''app.jks.cer'' := Some [0x30, 0x82])\<rparr>))
      (\<lambda>data. [0xDA, 0x39]) (\<lambda>data. [0xE3, 0xB0])
      (emptyFileSystem\<lparr>unlinkFault :=
         (\<lambda>path. if path = ''app.jks.cer''
                 then Some \<lparr>name = ''Error'', message = ''EPERM: operation not permitted'',
                             code = Some ''EPERM'', stdout = None, stderr = None\<rparr>
                 else None)\<rparr>)
      \<lparr>keystorePassword = ''pw1'', keyAlias = ''alias'', keyPassword = ''pw2'',
        keystorePath = ''app.jks''\<rparr>
      (Some \<lparr>hasWarn = True, hasError = True\<rparr>)) = Inr ()"
proof -
  have hex: "digestHex [0xDA, 0x39] = ''da39''" "digestHex [0xE3, 0xB0] = ''e3b0''"
    by (simp_all add: digestHex_def hexOfByte_def hexDigit_def)
  have upper: "toUpperCase ''da39'' = ''DA39''" "toUpperCase ''e3b0'' = ''E3B0''"
    by (simp_all add: toUpperCase_def upperChar_def char_of_eq_iff)
  show ?thesis
    by (simp add: logKeystoreHashes_def logParameter_def defaultLog_def hashesTry_def
        hashesFinally_def exportCert_def readFileSync_def unlinkSync_def emptyFileSystem_def
        googleFingerprint_def googleHash_def googleHash256_def hex upper lineTerminator_def
        base64Char_def base64Alphabet_def
        Let_def)
qed

end
